theory Spec2Isabelle
  imports Main
begin

section \<open>Data model\<close>

text \<open>
  The backend of the hint and feedback system: the authorization middleware
  (\<^verbatim>\<open>middleware/authMiddleware.ts\<close>), the hint and progress controllers
  (\<^verbatim>\<open>controllers/hintController.ts\<close>, \<^verbatim>\<open>controllers/progressController.ts\<close>), the
  audit logger (\<^verbatim>\<open>services/auditLogger.ts\<close>), the notification service
  (\<^verbatim>\<open>services/notificationService.ts\<close>) and the router
  (\<^verbatim>\<open>routes/supportRoutes.ts\<close>).

  Strings are \<open>string\<close>; an optional JavaScript value (\<^verbatim>\<open>undefined\<close>, \<^verbatim>\<open>null\<close>) is
  \<open>None\<close>; dates are milliseconds as \<open>int\<close>.
\<close>

datatype userRole = USER | SUPPORT_SPECIALIST | ADMIN

text \<open>The string values of the enum \<^verbatim>\<open>UserRole\<close>.\<close>

fun role_str :: "userRole \<Rightarrow> string" where
  "role_str USER = ''user''"
| "role_str SUPPORT_SPECIALIST = ''support_specialist''"
| "role_str ADMIN = ''admin''"

text \<open>\<^verbatim>\<open>AuthenticatedRequest.user\<close>: the identity attached by \<^verbatim>\<open>authenticateJWT\<close>.\<close>

record actor =
  a_id :: string
  a_role :: userRole

text \<open>
  An optional string of a JSON body where the code tells \<^verbatim>\<open>undefined\<close> (the property
  is absent) from \<^verbatim>\<open>null\<close>.
\<close>

datatype jsString = JUndefined | JNull | JString string

text \<open>
  The parts of an Express request the middleware and the controllers read:
  \<^verbatim>\<open>req.user\<close>, \<^verbatim>\<open>req.params\<close>, \<^verbatim>\<open>req.body\<close> and \<^verbatim>\<open>req.query\<close>. A field that is
  absent is \<open>None\<close>; so is a \<^verbatim>\<open>null\<close> in the fields the code only tests and compares
  (\<open>userId\<close>, \<open>stepId\<close>, \<open>message\<close>). The optional \<open>puzzleId\<close> of the body is passed
  on as it is.
\<close>

record request =
  user :: "actor option"
  params_userId :: "string option"
  params_hintId :: "string option"
  body_userId :: "string option"
  body_stepId :: "string option"
  body_puzzleId :: jsString
  body_message :: "string option"
  query_userId :: "string option"

text \<open>
  Modelled from the spec: the Prisma schema (\<^verbatim>\<open>prisma/schema.prisma\<close>) is not among the
  sources; the tables below have the fields of section 3 of the specification, which
  are the fields the controllers read and write.
\<close>

datatype requestStatus = OPEN | CLOSED

datatype hintStatus = UNREAD | VIEWED

record userRow =
  u_id :: string
  u_username :: string

record supportRequest =
  sr_id :: string
  sr_userId :: string
  sr_status :: requestStatus
  sr_createdAt :: int

record hint =
  h_id :: string
  h_userId :: string
  h_supportRequestId :: string
  h_stepId :: string
  h_puzzleId :: "string option"
  h_message :: string
  h_sentById :: "string option"
  h_sentByRole :: "userRole option"
  h_status :: hintStatus
  h_createdAt :: int
  h_viewedAt :: "int option"

record progressLog =
  pl_id :: string
  pl_userId :: string
  pl_stepId :: string
  pl_puzzleId :: "string option"
  pl_status :: string
  pl_updatedAt :: int
  pl_details :: string

text \<open>A value of an audit event's metadata object.\<close>

datatype mval = MStr string | MDate int | MNull | MUndefined

type_synonym metadata = "(string \<times> mval) list"

text \<open>\<^verbatim>\<open>AuditLogParams\<close> of \<^verbatim>\<open>auditLogger.ts\<close>.\<close>

record auditLogParams =
  actorId :: string
  actorRole :: string
  action :: string
  targetUserId :: "string option"
  metadata :: "metadata option"

text \<open>A row of the audit table, as \<^verbatim>\<open>logAuditEvent\<close> writes it.\<close>

record auditLog =
  al_actorId :: string
  al_actorRole :: string
  al_action :: string
  al_targetUserId :: "string option"
  al_metadata :: "metadata option"
  al_timestamp :: int

text \<open>\<^verbatim>\<open>NotificationPayload\<close> of \<^verbatim>\<open>notificationService.ts\<close>.\<close>

datatype notificationType = HINT | FEEDBACK | GENERIC

record notificationPayload =
  n_type :: notificationType
  n_hintId :: "string option"
  n_message :: string
  n_stepId :: "string option"
  n_puzzleId :: jsString
  n_sentAt :: "int option"

section \<open>The world: store, socket directory, outputs\<close>

datatype logLevel = LogError | LogWarn

text \<open>
  The state the backend acts on: the tables of the store, the module state of the
  notification service (\<^verbatim>\<open>io\<close> initialised or not, \<^verbatim>\<open>userSocketMap\<close>), and the two
  outputs, kept as traces: the notifications emitted to sockets and the console.
\<close>

record world =
  users :: "userRow list"
  supportRequests :: "supportRequest list"
  hints :: "hint list"
  progressLogs :: "progressLog list"
  auditLogs :: "auditLog list"
  io :: bool
  userSocketMap :: "string \<rightharpoonup> string list"
  emitted :: "(string \<times> notificationPayload) list"
  console :: "(logLevel \<times> string) list"

datatype storeOp =
    UserFindUnique | SupportRequestFindFirst | HintCreate | HintFindMany
  | HintFindUnique | HintUpdate | ProgressLogFindMany | AuditLogCreate

text \<open>What a call can throw.\<close>

datatype exn = StoreError storeOp | EmitError string

text \<open>
  What the code takes from outside: the clock (\<^verbatim>\<open>new Date()\<close> in the controllers and
  in the audit logger, the creation time the store stamps), the id the store gives a
  new hint, which calls to the store throw, and for which sockets \<^verbatim>\<open>emit\<close> throws.
\<close>

record env =
  date_now :: int
  audit_date_now :: int
  db_now :: int
  new_hint_id :: string
  store_throws :: "storeOp \<Rightarrow> bool"
  emit_throws :: "string \<Rightarrow> bool"

section \<open>Store operations\<close>

text \<open>
  The Prisma calls of the controllers, on the tables as lists in insertion order.
  Each call throws when the environment says so. \<^verbatim>\<open>findUnique\<close> without a key throws
  as well.
\<close>

definition user_findUnique ::
  "env \<Rightarrow> world \<Rightarrow> string option \<Rightarrow> exn + userRow option" where
  "user_findUnique e w key =
     (if store_throws e UserFindUnique then Inl (StoreError UserFindUnique)
      else case key of
        None \<Rightarrow> Inl (StoreError UserFindUnique)
      | Some uid \<Rightarrow> Inr (find (\<lambda>u. u_id u = uid) (users w)))"

definition supportRequest_findFirst ::
  "env \<Rightarrow> world \<Rightarrow> string \<Rightarrow> requestStatus \<Rightarrow> exn + supportRequest option" where
  "supportRequest_findFirst e w uid st =
     (if store_throws e SupportRequestFindFirst then Inl (StoreError SupportRequestFindFirst)
      else Inr (find (\<lambda>r. sr_userId r = uid \<and> sr_status r = st) (supportRequests w)))"

text \<open>The value of an optional column: absent and \<^verbatim>\<open>null\<close> are both stored as null.\<close>

definition column_of :: "jsString \<Rightarrow> string option" where
  "column_of v = (case v of JUndefined \<Rightarrow> None | JNull \<Rightarrow> None | JString s \<Rightarrow> Some s)"

text \<open>\<^verbatim>\<open>prisma.hint.create\<close>: the store assigns the id and the creation time.\<close>

definition hint_create ::
  "env \<Rightarrow> world \<Rightarrow> string \<Rightarrow> string \<Rightarrow> string \<Rightarrow> jsString \<Rightarrow> string \<Rightarrow>
   string option \<Rightarrow> userRole option \<Rightarrow> hintStatus \<Rightarrow> exn + (hint \<times> world)" where
  "hint_create e w uid srid stepId puzzleId message sentById sentByRole st =
     (if store_throws e HintCreate then Inl (StoreError HintCreate)
      else
        let h = \<lparr> h_id = new_hint_id e, h_userId = uid, h_supportRequestId = srid,
                  h_stepId = stepId, h_puzzleId = column_of puzzleId, h_message = message,
                  h_sentById = sentById, h_sentByRole = sentByRole, h_status = st,
                  h_createdAt = db_now e, h_viewedAt = None \<rparr>
        in Inr (h, w\<lparr>hints := hints w @ [h]\<rparr>))"

text \<open>
  \<^verbatim>\<open>prisma.hint.findMany\<close> with \<^verbatim>\<open>where: { userId }\<close> and
  \<^verbatim>\<open>orderBy: [{ createdAt: 'desc' }]\<close>: the user's hints, newest first, hints of the
  same creation time in insertion order.
\<close>

definition hint_findMany :: "env \<Rightarrow> world \<Rightarrow> string \<Rightarrow> exn + hint list" where
  "hint_findMany e w uid =
     (if store_throws e HintFindMany then Inl (StoreError HintFindMany)
      else Inr (sort_key (\<lambda>h. - h_createdAt h) (filter (\<lambda>h. h_userId h = uid) (hints w))))"

definition hint_findUnique :: "env \<Rightarrow> world \<Rightarrow> string option \<Rightarrow> exn + hint option" where
  "hint_findUnique e w key =
     (if store_throws e HintFindUnique then Inl (StoreError HintFindUnique)
      else case key of
        None \<Rightarrow> Inl (StoreError HintFindUnique)
      | Some hid \<Rightarrow> Inr (find (\<lambda>h. h_id h = hid) (hints w)))"

text \<open>Replaces the first row that satisfies \<open>P\<close>.\<close>

fun update_first :: "('a \<Rightarrow> bool) \<Rightarrow> ('a \<Rightarrow> 'a) \<Rightarrow> 'a list \<Rightarrow> 'a list" where
  "update_first P f [] = []"
| "update_first P f (x # xs) = (if P x then f x # xs else x # update_first P f xs)"

text \<open>
  \<^verbatim>\<open>prisma.hint.update\<close> with \<^verbatim>\<open>data: { status, viewedAt }\<close>: rewrites the row of that id
  and returns it; throws when there is none.
\<close>

definition hint_update ::
  "env \<Rightarrow> world \<Rightarrow> string option \<Rightarrow> hintStatus \<Rightarrow> int \<Rightarrow> exn + (hint \<times> world)" where
  "hint_update e w key st viewedAt =
     (if store_throws e HintUpdate then Inl (StoreError HintUpdate)
      else case key of
        None \<Rightarrow> Inl (StoreError HintUpdate)
      | Some hid \<Rightarrow>
          (case find (\<lambda>h. h_id h = hid) (hints w) of
             None \<Rightarrow> Inl (StoreError HintUpdate)
           | Some h \<Rightarrow>
               let upd = (\<lambda>x. x\<lparr>h_status := st, h_viewedAt := Some viewedAt\<rparr>)
               in Inr (upd h, w\<lparr>hints := update_first (\<lambda>x. h_id x = hid) upd (hints w)\<rparr>)))"

text \<open>
  \<^verbatim>\<open>prisma.progressLog.findMany\<close> with \<^verbatim>\<open>where: { userId }\<close> and
  \<^verbatim>\<open>orderBy: [{ updatedAt: 'desc' }]\<close>.
\<close>

definition progressLog_findMany :: "env \<Rightarrow> world \<Rightarrow> string \<Rightarrow> exn + progressLog list" where
  "progressLog_findMany e w uid =
     (if store_throws e ProgressLogFindMany then Inl (StoreError ProgressLogFindMany)
      else Inr (sort_key (\<lambda>l. - pl_updatedAt l) (filter (\<lambda>l. pl_userId l = uid) (progressLogs w))))"

definition auditLog_create :: "env \<Rightarrow> world \<Rightarrow> auditLog \<Rightarrow> exn + world" where
  "auditLog_create e w row =
     (if store_throws e AuditLogCreate then Inl (StoreError AuditLogCreate)
      else Inr (w\<lparr>auditLogs := auditLogs w @ [row]\<rparr>))"

section \<open>Audit logger\<close>

text \<open>
  \<^verbatim>\<open>JSON.stringify\<close> of a metadata object leaves out the undefined properties and keeps
  the null ones.
\<close>

definition json_stringify :: "metadata \<Rightarrow> metadata" where
  "json_stringify m = filter (\<lambda>kv. snd kv \<noteq> MUndefined) m"

text \<open>
  \<^verbatim>\<open>logAuditEvent\<close>: the write is inside \<^verbatim>\<open>try\<close>; the \<^verbatim>\<open>catch\<close> logs to the console and
  does not rethrow. The result is how the call completes (\<open>Inr ()\<close>: it returns) and the
  world after it.
\<close>

definition logAuditEvent :: "env \<Rightarrow> world \<Rightarrow> auditLogParams \<Rightarrow> (exn + unit) \<times> world" where
  "logAuditEvent e w p =
     (case auditLog_create e w
             \<lparr> al_actorId = actorId p, al_actorRole = actorRole p, al_action = action p,
               al_targetUserId = targetUserId p,
               al_metadata = map_option json_stringify (metadata p),
               al_timestamp = audit_date_now e \<rparr> of
        Inr w' \<Rightarrow> (Inr (), w')
      | Inl err \<Rightarrow> (Inr (), w\<lparr>console := console w @ [(LogError, ''Audit log error:'')]\<rparr>))"

section \<open>Notification service\<close>

text \<open>
  The \<^verbatim>\<open>forEach\<close> over the user's sockets: one \<^verbatim>\<open>emit\<close> per socket, in order; an
  \<^verbatim>\<open>emit\<close> that throws ends the loop with that exception.
\<close>

fun emit_each ::
  "env \<Rightarrow> notificationPayload \<Rightarrow> world \<Rightarrow> string list \<Rightarrow> (exn + unit) \<times> world" where
  "emit_each e p w [] = (Inr (), w)"
| "emit_each e p w (s # ss) =
     (if emit_throws e s then (Inl (EmitError s), w)
      else emit_each e p (w\<lparr>emitted := emitted w @ [(s, p)]\<rparr>) ss)"

definition sendNotificationToUser ::
  "env \<Rightarrow> world \<Rightarrow> string \<Rightarrow> notificationPayload \<Rightarrow> (exn + unit) \<times> world" where
  "sendNotificationToUser e w userId payload =
     (if \<not> io w then
        (Inr (), w\<lparr>console := console w @
                    [(LogError, ''Socket.io not initialized. Cannot send notification.'')]\<rparr>)
      else
        let not_connected =
          (Inr (), w\<lparr>console := console w @
             [(LogWarn, ''User '' @ userId @
                 '' not connected. Notification not delivered in real-time.'')]\<rparr>)
        in case userSocketMap w userId of
             None \<Rightarrow> not_connected
           | Some sockets \<Rightarrow>
               if sockets = [] then not_connected else emit_each e payload w sockets)"

section \<open>Authorization middleware\<close>

text \<open>JavaScript truthiness of an optional string: absent and the empty string are falsy.\<close>

definition truthy :: "string option \<Rightarrow> bool" where
  "truthy v = (case v of None \<Rightarrow> False | Some s \<Rightarrow> s \<noteq> [])"

text \<open>\<^verbatim>\<open>a || b\<close> on optional strings.\<close>

definition js_or :: "string option \<Rightarrow> string option \<Rightarrow> string option" where
  "js_or a b = (if truthy a then a else b)"

text \<open>The string of a field, once it is known to be present.\<close>

definition str :: "string option \<Rightarrow> string" where
  "str v = (case v of None \<Rightarrow> [] | Some s \<Rightarrow> s)"

text \<open>\<^verbatim>\<open>req.user?.id\<close> and \<^verbatim>\<open>req.user?.role\<close>.\<close>

definition user_id :: "request \<Rightarrow> string option" where
  "user_id req = map_option a_id (user req)"

definition user_role :: "request \<Rightarrow> userRole option" where
  "user_role req = map_option a_role (user req)"

text \<open>A middleware either calls \<^verbatim>\<open>next()\<close> or answers with a status and an error message.\<close>

datatype middlewareResult = CallNext | Respond nat string

definition authorizeSupportSpecialist :: "request \<Rightarrow> middlewareResult" where
  "authorizeSupportSpecialist req =
     (if user_role req = Some SUPPORT_SPECIALIST \<or> user_role req = Some ADMIN then CallNext
      else Respond 403 ''Access denied. Support Specialist role required.'')"

text \<open>\<^verbatim>\<open>req.params.userId || req.body.userId\<close>.\<close>

definition userIdParam :: "request \<Rightarrow> string option" where
  "userIdParam req = js_or (params_userId req) (body_userId req)"

definition authorizeUserOrSupportSpecialist :: "request \<Rightarrow> middlewareResult" where
  "authorizeUserOrSupportSpecialist req =
     (if user_role req = Some SUPPORT_SPECIALIST \<or> user_role req = Some ADMIN then CallNext
      else if truthy (userIdParam req) \<and> user_id req = userIdParam req then CallNext
      else if \<not> truthy (userIdParam req) \<and> user_role req = Some USER then CallNext
      else Respond 403 ''Access denied.'')"

section \<open>Responses\<close>

record hintSent =
  hs_id :: string
  hs_stepId :: string
  hs_puzzleId :: "string option"
  hs_message :: string
  hs_sentAt :: int
  hs_status :: hintStatus

text \<open>The fields \<^verbatim>\<open>getUserHints\<close> selects; the subject \<^verbatim>\<open>userId\<close> is not among them.\<close>

record hintView =
  hv_id :: string
  hv_stepId :: string
  hv_puzzleId :: "string option"
  hv_message :: string
  hv_status :: hintStatus
  hv_createdAt :: int
  hv_viewedAt :: "int option"
  hv_sentById :: "string option"
  hv_sentByRole :: "userRole option"

record hintViewed =
  hw_id :: string
  hw_status :: hintStatus
  hw_viewedAt :: "int option"

record progressLogView =
  pv_id :: string
  pv_stepId :: string
  pv_puzzleId :: "string option"
  pv_status :: string
  pv_updatedAt :: int
  pv_details :: string

record stuckView =
  sv_stepId :: string
  sv_puzzleId :: "string option"
  sv_status :: string
  sv_updatedAt :: int
  sv_details :: string

record progressBody =
  pb_user :: userRow
  pb_supportRequest :: "string \<times> int"
  pb_progressLogs :: "progressLogView list"
  pb_stuckStepOrPuzzle :: "stuckView option"

datatype body =
    ErrorBody string
  | HintSentBody string hintSent
  | HintsBody "hintView list"
  | HintViewedBody string hintViewed
  | ProgressBody progressBody

text \<open>
  How a handler ends: \<^verbatim>\<open>res.status(c).json(b)\<close>, or \<^verbatim>\<open>next(error)\<close> from its
  \<^verbatim>\<open>catch\<close> block.
\<close>

datatype response = Json nat body | NextError exn

text \<open>The \<^verbatim>\<open>catch\<close> block of a controller: log, then \<^verbatim>\<open>next(error)\<close>.\<close>

definition catch_next :: "string \<Rightarrow> exn \<Rightarrow> world \<Rightarrow> response \<times> world" where
  "catch_next msg err w = (NextError err, w\<lparr>console := console w @ [(LogError, msg)]\<rparr>)"

text \<open>\<^verbatim>\<open>req.user?.id || 'unknown'\<close> and \<^verbatim>\<open>req.user?.role || 'unknown'\<close>.\<close>

definition actor_id_or_unknown :: "request \<Rightarrow> string" where
  "actor_id_or_unknown req = (if truthy (user_id req) then str (user_id req) else ''unknown'')"

definition actor_role_or_unknown :: "request \<Rightarrow> string" where
  "actor_role_or_unknown req =
     (case user_role req of None \<Rightarrow> ''unknown'' | Some r \<Rightarrow> role_str r)"

text \<open>The metadata value of an optional string of the body.\<close>

definition js_mval :: "jsString \<Rightarrow> mval" where
  "js_mval v = (case v of JUndefined \<Rightarrow> MUndefined | JNull \<Rightarrow> MNull | JString s \<Rightarrow> MStr s)"

text \<open>The metadata value of a nullable date column.\<close>

definition date_mval :: "int option \<Rightarrow> mval" where
  "date_mval v = (case v of None \<Rightarrow> MNull | Some d \<Rightarrow> MDate d)"

section \<open>Hint controller\<close>

definition sendHintOrFeedback :: "env \<Rightarrow> world \<Rightarrow> request \<Rightarrow> response \<times> world" where
  "sendHintOrFeedback e w req =
     (let userId = params_userId req;
          stepId = body_stepId req;
          puzzleId = body_puzzleId req;
          message = body_message req
      in
      if \<not> truthy stepId \<or> \<not> truthy message then
        (Json 400 (ErrorBody ''stepId and message are required.''), w)
      else case user_findUnique e w userId of
        Inl err \<Rightarrow> catch_next ''Error sending hint/feedback:'' err w
      | Inr None \<Rightarrow> (Json 404 (ErrorBody ''User not found.''), w)
      | Inr (Some u) \<Rightarrow>
         (case supportRequest_findFirst e w (str userId) OPEN of
            Inl err \<Rightarrow> catch_next ''Error sending hint/feedback:'' err w
          | Inr None \<Rightarrow>
              (Json 403 (ErrorBody ''Cannot send hint: user has not requested support.''), w)
          | Inr (Some supportRequest) \<Rightarrow>
             (case hint_create e w (str userId) (sr_id supportRequest) (str stepId) puzzleId
                     (str message)
                     (if truthy (user_id req) then user_id req else None)
                     (user_role req) UNREAD of
                Inl err \<Rightarrow> catch_next ''Error sending hint/feedback:'' err w
              | Inr (hint, w1) \<Rightarrow>
                 (case logAuditEvent e w1
                         \<lparr> actorId = actor_id_or_unknown req,
                           actorRole = actor_role_or_unknown req,
                           action = ''SEND_HINT'',
                           targetUserId = userId,
                           metadata = Some
                             [(''hintId'', MStr (h_id hint)),
                              (''supportRequestId'', MStr (sr_id supportRequest)),
                              (''stepId'', MStr (str stepId)),
                              (''puzzleId'', js_mval puzzleId)] \<rparr> of
                    (Inl err, w2) \<Rightarrow> catch_next ''Error sending hint/feedback:'' err w2
                  | (Inr _, w2) \<Rightarrow>
                     (case sendNotificationToUser e w2 (str userId)
                             \<lparr> n_type = HINT, n_hintId = Some (h_id hint),
                               n_message = str message, n_stepId = stepId,
                               n_puzzleId = puzzleId, n_sentAt = Some (h_createdAt hint) \<rparr> of
                        (Inl err, w3) \<Rightarrow> catch_next ''Error sending hint/feedback:'' err w3
                      | (Inr _, w3) \<Rightarrow>
                          (Json 201 (HintSentBody ''Hint/feedback sent successfully.''
                             \<lparr> hs_id = h_id hint, hs_stepId = h_stepId hint,
                               hs_puzzleId = h_puzzleId hint, hs_message = h_message hint,
                               hs_sentAt = h_createdAt hint, hs_status = h_status hint \<rparr>),
                           w3))))))"

text \<open>The \<^verbatim>\<open>select\<close> of \<^verbatim>\<open>getUserHints\<close>.\<close>

definition hint_select :: "hint \<Rightarrow> hintView" where
  "hint_select h =
     \<lparr> hv_id = h_id h, hv_stepId = h_stepId h, hv_puzzleId = h_puzzleId h,
       hv_message = h_message h, hv_status = h_status h, hv_createdAt = h_createdAt h,
       hv_viewedAt = h_viewedAt h, hv_sentById = h_sentById h,
       hv_sentByRole = h_sentByRole h \<rparr>"

definition getUserHints :: "env \<Rightarrow> world \<Rightarrow> request \<Rightarrow> response \<times> world" where
  "getUserHints e w req =
     (let userId =
            (if user_role req = Some SUPPORT_SPECIALIST \<or> user_role req = Some ADMIN
             then query_userId req
             else user_id req)
      in
      if \<not> truthy userId then (Json 400 (ErrorBody ''User ID is required.''), w)
      else case hint_findMany e w (str userId) of
        Inl err \<Rightarrow> catch_next ''Error fetching user hints:'' err w
      | Inr hs \<Rightarrow>
         (case logAuditEvent e w
                 \<lparr> actorId = actor_id_or_unknown req,
                   actorRole = actor_role_or_unknown req,
                   action = ''VIEW_HINT_LIST'',
                   targetUserId = userId,
                   metadata = Some [] \<rparr> of
            (Inl err, w1) \<Rightarrow> catch_next ''Error fetching user hints:'' err w1
          | (Inr _, w1) \<Rightarrow> (Json 200 (HintsBody (map hint_select hs)), w1)))"

definition markHintAsViewed :: "env \<Rightarrow> world \<Rightarrow> request \<Rightarrow> response \<times> world" where
  "markHintAsViewed e w req =
     (let hintId = params_hintId req in
      case hint_findUnique e w hintId of
        Inl err \<Rightarrow> catch_next ''Error marking hint as viewed:'' err w
      | Inr None \<Rightarrow> (Json 404 (ErrorBody ''Hint not found.''), w)
      | Inr (Some hint) \<Rightarrow>
          if user_id req \<noteq> Some (h_userId hint) \<and> user_role req \<noteq> Some ADMIN then
            (Json 403 (ErrorBody ''Access denied.''), w)
          else
           (case hint_update e w hintId VIEWED (date_now e) of
              Inl err \<Rightarrow> catch_next ''Error marking hint as viewed:'' err w
            | Inr (updatedHint, w1) \<Rightarrow>
               (case logAuditEvent e w1
                       \<lparr> actorId = actor_id_or_unknown req,
                         actorRole = actor_role_or_unknown req,
                         action = ''VIEW_HINT'',
                         targetUserId = Some (h_userId hint),
                         metadata = Some
                           [(''hintId'', MStr (h_id hint)),
                            (''viewedAt'', date_mval (h_viewedAt updatedHint))] \<rparr> of
                  (Inl err, w2) \<Rightarrow> catch_next ''Error marking hint as viewed:'' err w2
                | (Inr _, w2) \<Rightarrow>
                    (Json 200 (HintViewedBody ''Hint marked as viewed.''
                       \<lparr> hw_id = h_id updatedHint, hw_status = h_status updatedHint,
                         hw_viewedAt = h_viewedAt updatedHint \<rparr>),
                     w2))))"

section \<open>Progress controller\<close>

definition progressLog_select :: "progressLog \<Rightarrow> progressLogView" where
  "progressLog_select l =
     \<lparr> pv_id = pl_id l, pv_stepId = pl_stepId l, pv_puzzleId = pl_puzzleId l,
       pv_status = pl_status l, pv_updatedAt = pl_updatedAt l, pv_details = pl_details l \<rparr>"

definition stuck_of :: "progressLogView \<Rightarrow> stuckView" where
  "stuck_of l =
     \<lparr> sv_stepId = pv_stepId l, sv_puzzleId = pv_puzzleId l, sv_status = pv_status l,
       sv_updatedAt = pv_updatedAt l, sv_details = pv_details l \<rparr>"

definition getUserProgress :: "env \<Rightarrow> world \<Rightarrow> request \<Rightarrow> response \<times> world" where
  "getUserProgress e w req =
     (let userId = params_userId req in
      case user_findUnique e w userId of
        Inl err \<Rightarrow> catch_next ''Error fetching user progress:'' err w
      | Inr None \<Rightarrow> (Json 404 (ErrorBody ''User not found.''), w)
      | Inr (Some u) \<Rightarrow>
         (case supportRequest_findFirst e w (str userId) OPEN of
            Inl err \<Rightarrow> catch_next ''Error fetching user progress:'' err w
          | Inr None \<Rightarrow> (Json 403 (ErrorBody ''No active support request for this user.''), w)
          | Inr (Some supportRequest) \<Rightarrow>
             (case progressLog_findMany e w (str userId) of
                Inl err \<Rightarrow> catch_next ''Error fetching user progress:'' err w
              | Inr logs \<Rightarrow>
                 (let progressLogs = map progressLog_select logs;
                      stuckLog = find (\<lambda>l. pv_status l = ''STUCK'') progressLogs
                  in
                  case logAuditEvent e w
                         \<lparr> actorId = actor_id_or_unknown req,
                           actorRole = actor_role_or_unknown req,
                           action = ''VIEW_USER_PROGRESS'',
                           targetUserId = userId,
                           metadata = Some
                             [(''supportRequestId'', MStr (sr_id supportRequest)),
                              (''viewedAt'', MDate (date_now e))] \<rparr> of
                    (Inl err, w1) \<Rightarrow> catch_next ''Error fetching user progress:'' err w1
                  | (Inr _, w1) \<Rightarrow>
                      (Json 200 (ProgressBody
                         \<lparr> pb_user = u,
                           pb_supportRequest = (sr_id supportRequest, sr_createdAt supportRequest),
                           pb_progressLogs = progressLogs,
                           pb_stuckStepOrPuzzle = map_option stuck_of stuckLog \<rparr>),
                       w1)))))"

section \<open>Router\<close>

text \<open>
  The four routes of \<^verbatim>\<open>supportRoutes.ts\<close>, after \<^verbatim>\<open>authenticateJWT\<close> has attached the
  identity: the authorization middleware, then the controller. A request has only the
  route parameters its route names.
\<close>

datatype route = GET_progress | POST_hint | GET_hint | POST_hint_view

definition run_route ::
  "(request \<Rightarrow> middlewareResult) \<Rightarrow> (env \<Rightarrow> world \<Rightarrow> request \<Rightarrow> response \<times> world) \<Rightarrow>
   env \<Rightarrow> world \<Rightarrow> request \<Rightarrow> response \<times> world" where
  "run_route authorize controller e w req =
     (case authorize req of
        Respond c msg \<Rightarrow> (Json c (ErrorBody msg), w)
      | CallNext \<Rightarrow> controller e w req)"

fun supportRoutes :: "route \<Rightarrow> env \<Rightarrow> world \<Rightarrow> request \<Rightarrow> response \<times> world" where
  "supportRoutes GET_progress e w req =
     run_route authorizeSupportSpecialist getUserProgress e w (req\<lparr>params_hintId := None\<rparr>)"
| "supportRoutes POST_hint e w req =
     run_route authorizeSupportSpecialist sendHintOrFeedback e w (req\<lparr>params_hintId := None\<rparr>)"
| "supportRoutes GET_hint e w req =
     run_route authorizeUserOrSupportSpecialist getUserHints e w
       (req\<lparr>params_userId := None, params_hintId := None\<rparr>)"
| "supportRoutes POST_hint_view e w req =
     run_route authorizeUserOrSupportSpecialist markHintAsViewed e w
       (req\<lparr>params_userId := None\<rparr>)"

section \<open>Operations and their audit tags\<close>

text \<open>
  The four operations of the specification and the controllers that implement them
  (CreateHint is \<^verbatim>\<open>sendHintOrFeedback\<close>, ListHints is \<^verbatim>\<open>getUserHints\<close>, MarkViewed is
  \<^verbatim>\<open>markHintAsViewed\<close>, ViewProgress is \<^verbatim>\<open>getUserProgress\<close>).
\<close>

datatype operation = CreateHint | ListHints | MarkViewed | ViewProgress

fun controller :: "operation \<Rightarrow> env \<Rightarrow> world \<Rightarrow> request \<Rightarrow> response \<times> world" where
  "controller CreateHint = sendHintOrFeedback"
| "controller ListHints = getUserHints"
| "controller MarkViewed = markHintAsViewed"
| "controller ViewProgress = getUserProgress"

text \<open>The action tag the specification gives each operation.\<close>

fun action_tag :: "operation \<Rightarrow> string" where
  "action_tag CreateHint = ''SEND_HINT''"
| "action_tag ListHints = ''VIEW_HINT_LIST''"
| "action_tag MarkViewed = ''VIEW_HINT''"
| "action_tag ViewProgress = ''VIEW_USER_PROGRESS''"

text \<open>
  A response that rejects the request (validation, not found, forbidden), and a
  response of an invocation that got past its checks and its store calls, so that the
  audit logger was called: the success responses, and \<^verbatim>\<open>next(error)\<close> with the
  exception of an \<^verbatim>\<open>emit\<close>, which is thrown after the audit call.
\<close>

fun rejected :: "response \<Rightarrow> bool" where
  "rejected (Json c b) = (c = 400 \<or> c = 403 \<or> c = 404)"
| "rejected (NextError err) = False"

fun performed :: "response \<Rightarrow> bool" where
  "performed (Json c b) = (c = 200 \<or> c = 201)"
| "performed (NextError (EmitError s)) = True"
| "performed (NextError (StoreError opn)) = False"

text \<open>The environment with the write to the audit table throwing, or not.\<close>

definition audit_write_throws :: "bool \<Rightarrow> env \<Rightarrow> env" where
  "audit_write_throws b e = e\<lparr>store_throws := (store_throws e)(AuditLogCreate := b)\<rparr>"

text \<open>
  The decision on list-own-hints in the words of the specification: allowed if and only
  if the actor is a support specialist or an admin, or is a user and the request
  supplies no explicit target user id (as a route parameter, in the body or in the
  query).
\<close>

definition spec_list_own_hints_allows :: "request \<Rightarrow> bool" where
  "spec_list_own_hints_allows req =
     (user_role req = Some SUPPORT_SPECIALIST \<or> user_role req = Some ADMIN \<or>
      (user_role req = Some USER \<and>
       params_userId req = None \<and> body_userId req = None \<and> query_userId req = None))"

section \<open>A concrete scenario\<close>

text \<open>
  Users \<open>u1\<close> (with an open support request \<open>r1\<close> and two hints: \<open>h1\<close>, already
  viewed, and the newer \<open>h3\<close>) and \<open>u2\<close> (whose request \<open>r2\<close> is closed, with one hint
  \<open>h0\<close>); \<open>u1\<close> has one live socket, \<open>u2\<close> none.
\<close>

definition ex_env :: env where
  "ex_env = \<lparr> date_now = 9000, audit_date_now = 9001, db_now = 8000,
              new_hint_id = ''h2'', store_throws = (\<lambda>_. False),
              emit_throws = (\<lambda>_. False) \<rparr>"

definition ex_hint :: hint where
  "ex_hint = \<lparr> h_id = ''h1'', h_userId = ''u1'', h_supportRequestId = ''r1'',
               h_stepId = ''step-1'', h_puzzleId = None, h_message = ''look up'',
               h_sentById = Some ''s1'', h_sentByRole = Some SUPPORT_SPECIALIST,
               h_status = VIEWED, h_createdAt = 1000, h_viewedAt = Some 5000 \<rparr>"

definition ex_hint_other :: hint where
  "ex_hint_other = \<lparr> h_id = ''h0'', h_userId = ''u2'', h_supportRequestId = ''r2'',
               h_stepId = ''step-2'', h_puzzleId = Some ''p7'', h_message = ''count the tiles'',
               h_sentById = Some ''s1'', h_sentByRole = Some SUPPORT_SPECIALIST,
               h_status = UNREAD, h_createdAt = 1500, h_viewedAt = None \<rparr>"

definition ex_hint_newer :: hint where
  "ex_hint_newer = \<lparr> h_id = ''h3'', h_userId = ''u1'', h_supportRequestId = ''r1'',
               h_stepId = ''step-2'', h_puzzleId = None, h_message = ''turn around'',
               h_sentById = Some ''s1'', h_sentByRole = Some SUPPORT_SPECIALIST,
               h_status = UNREAD, h_createdAt = 2000, h_viewedAt = None \<rparr>"

definition ex_payload :: notificationPayload where
  "ex_payload = \<lparr> n_type = HINT, n_hintId = Some ''h3'', n_message = ''turn around'',
                  n_stepId = Some ''step-2'', n_puzzleId = JUndefined, n_sentAt = Some 2000 \<rparr>"

definition ex_world :: world where
  "ex_world =
     \<lparr> users = [\<lparr> u_id = ''u1'', u_username = ''alice'' \<rparr>,
                \<lparr> u_id = ''u2'', u_username = ''bob'' \<rparr>],
       supportRequests =
         [\<lparr> sr_id = ''r1'', sr_userId = ''u1'', sr_status = OPEN, sr_createdAt = 100 \<rparr>,
          \<lparr> sr_id = ''r2'', sr_userId = ''u2'', sr_status = CLOSED, sr_createdAt = 200 \<rparr>],
       hints = [ex_hint, ex_hint_other, ex_hint_newer],
       progressLogs =
         [\<lparr> pl_id = ''p1'', pl_userId = ''u1'', pl_stepId = ''step-3'', pl_puzzleId = None,
            pl_status = ''STUCK'', pl_updatedAt = 700, pl_details = [] \<rparr>],
       auditLogs = [],
       io = True,
       userSocketMap = [''u1'' \<mapsto> [''sock1'']],
       emitted = [],
       console = [] \<rparr>"

definition ex_request :: request where
  "ex_request = \<lparr> user = None, params_userId = None, params_hintId = None,
                  body_userId = None, body_stepId = None, body_puzzleId = JUndefined,
                  body_message = None, query_userId = None \<rparr>"

definition specialist :: actor where
  "specialist = \<lparr> a_id = ''s1'', a_role = SUPPORT_SPECIALIST \<rparr>"

definition user1 :: actor where
  "user1 = \<lparr> a_id = ''u1'', a_role = USER \<rparr>"

definition user2 :: actor where
  "user2 = \<lparr> a_id = ''u2'', a_role = USER \<rparr>"

text \<open>A specialist whose token has the empty string as subject.\<close>

definition nameless :: actor where
  "nameless = \<lparr> a_id = [], a_role = SUPPORT_SPECIALIST \<rparr>"

text \<open>An actor sends a hint to a user, on \<^verbatim>\<open>POST /hint/:userId\<close>.\<close>

definition send_as :: "actor \<Rightarrow> string \<Rightarrow> string \<Rightarrow> request" where
  "send_as a uid msg =
     ex_request\<lparr> user := Some a, params_userId := Some uid,
                 body_stepId := Some ''step-3'', body_message := Some msg \<rparr>"

text \<open>The specialist sends a hint to a user, on \<^verbatim>\<open>POST /hint/:userId\<close>.\<close>

definition send_to :: "string \<Rightarrow> string \<Rightarrow> request" where
  "send_to uid msg =
     ex_request\<lparr> user := Some specialist, params_userId := Some uid,
                 body_stepId := Some ''step-3'', body_message := Some msg \<rparr>"

text \<open>The specialist views the progress of a user, on \<^verbatim>\<open>GET /progress/:userId\<close>.\<close>

definition progress_of :: "string \<Rightarrow> request" where
  "progress_of uid = ex_request\<lparr> user := Some specialist, params_userId := Some uid \<rparr>"

text \<open>An actor marks a hint as viewed, on \<^verbatim>\<open>POST /hint/view/:hintId\<close>.\<close>

definition view_by :: "actor \<Rightarrow> string \<Rightarrow> request" where
  "view_by a hid = ex_request\<lparr> user := Some a, params_hintId := Some hid \<rparr>"

text \<open>An actor lists hints, on \<^verbatim>\<open>GET /hint\<close>, with a user id in the body and the query.\<close>

definition list_by :: "actor \<Rightarrow> string option \<Rightarrow> string option \<Rightarrow> request" where
  "list_by a b q = ex_request\<lparr> user := Some a, body_userId := b, query_userId := q \<rparr>"

section \<open>Lemmas on the store and the services\<close>

lemma find_present: "\<exists>x\<in>set xs. P x \<Longrightarrow> \<exists>y. find P xs = Some y \<and> P y \<and> y \<in> set xs"
  by (induction xs) auto

lemma find_update_first:
  "(\<And>x. P (f x) = P x) \<Longrightarrow> find P (update_first P f xs) = map_option f (find P xs)"
  by (induction xs) auto

text \<open>The audit logger always returns; what it leaves behind depends on the write.\<close>

lemma logAuditEvent_eq:
  "logAuditEvent e w p =
     (Inr (),
      if store_throws e AuditLogCreate
      then w\<lparr>console := console w @ [(LogError, ''Audit log error:'')]\<rparr>
      else w\<lparr>auditLogs := auditLogs w @
             [\<lparr> al_actorId = actorId p, al_actorRole = actorRole p, al_action = action p,
                al_targetUserId = targetUserId p,
                al_metadata = map_option json_stringify (metadata p),
                al_timestamp = audit_date_now e \<rparr>]\<rparr>)"
  by (simp add: logAuditEvent_def auditLog_create_def)

text \<open>The notification service touches only the emitted notifications and the console.\<close>

lemma emit_each_store:
  "users (snd (emit_each e p w ss)) = users w \<and>
   supportRequests (snd (emit_each e p w ss)) = supportRequests w \<and>
   hints (snd (emit_each e p w ss)) = hints w \<and>
   progressLogs (snd (emit_each e p w ss)) = progressLogs w \<and>
   auditLogs (snd (emit_each e p w ss)) = auditLogs w \<and>
   io (snd (emit_each e p w ss)) = io w \<and>
   userSocketMap (snd (emit_each e p w ss)) = userSocketMap w \<and>
   console (snd (emit_each e p w ss)) = console w"
  by (induction ss arbitrary: w) simp_all

lemma sendNotificationToUser_store:
  "users (snd (sendNotificationToUser e w u p)) = users w \<and>
   supportRequests (snd (sendNotificationToUser e w u p)) = supportRequests w \<and>
   hints (snd (sendNotificationToUser e w u p)) = hints w \<and>
   progressLogs (snd (sendNotificationToUser e w u p)) = progressLogs w \<and>
   auditLogs (snd (sendNotificationToUser e w u p)) = auditLogs w \<and>
   io (snd (sendNotificationToUser e w u p)) = io w \<and>
   userSocketMap (snd (sendNotificationToUser e w u p)) = userSocketMap w"
  by (simp add: sendNotificationToUser_def emit_each_store Let_def split: option.splits)

section \<open>CreateHint: the rejections\<close>

text \<open>
  Claim C1. \<^verbatim>\<open>sendHintOrFeedback\<close> answers 400 (validation error) when \<open>stepId\<close> or
  \<open>message\<close> is absent or empty; otherwise, when the store answers the lookups, 404 (not
  found) when no user has the target id; otherwise 403 (forbidden) when the target user
  has no support request with status \<open>OPEN\<close>. In each of the three cases the world is
  returned as it was: no hint is created, and nothing else is written either.
\<close>

theorem sendHintOrFeedback_rejects:
  "(\<not> truthy (body_stepId req) \<or> \<not> truthy (body_message req) \<longrightarrow>
      sendHintOrFeedback e w req =
        (Json 400 (ErrorBody ''stepId and message are required.''), w)) \<and>
   (truthy (body_stepId req) \<and> truthy (body_message req) \<and>
    params_userId req = Some uid \<and> \<not> store_throws e UserFindUnique \<and>
    (\<forall>u\<in>set (users w). u_id u \<noteq> uid) \<longrightarrow>
      sendHintOrFeedback e w req = (Json 404 (ErrorBody ''User not found.''), w)) \<and>
   (truthy (body_stepId req) \<and> truthy (body_message req) \<and>
    params_userId req = Some uid \<and> \<not> store_throws e UserFindUnique \<and>
    \<not> store_throws e SupportRequestFindFirst \<and>
    (\<exists>u\<in>set (users w). u_id u = uid) \<and>
    (\<forall>r\<in>set (supportRequests w). sr_userId r = uid \<longrightarrow> sr_status r \<noteq> OPEN) \<longrightarrow>
      sendHintOrFeedback e w req =
        (Json 403 (ErrorBody ''Cannot send hint: user has not requested support.''), w))"
proof (intro conjI impI)
  assume "\<not> truthy (body_stepId req) \<or> \<not> truthy (body_message req)"
  then show "sendHintOrFeedback e w req =
        (Json 400 (ErrorBody ''stepId and message are required.''), w)"
    by (auto simp: sendHintOrFeedback_def)
next
  assume a: "truthy (body_stepId req) \<and> truthy (body_message req) \<and>
    params_userId req = Some uid \<and> \<not> store_throws e UserFindUnique \<and>
    (\<forall>u\<in>set (users w). u_id u \<noteq> uid)"
  then have "find (\<lambda>u. u_id u = uid) (users w) = None"
    by (simp add: find_None_iff)
  with a show "sendHintOrFeedback e w req = (Json 404 (ErrorBody ''User not found.''), w)"
    by (simp add: sendHintOrFeedback_def user_findUnique_def)
next
  assume a: "truthy (body_stepId req) \<and> truthy (body_message req) \<and>
    params_userId req = Some uid \<and> \<not> store_throws e UserFindUnique \<and>
    \<not> store_throws e SupportRequestFindFirst \<and>
    (\<exists>u\<in>set (users w). u_id u = uid) \<and>
    (\<forall>r\<in>set (supportRequests w). sr_userId r = uid \<longrightarrow> sr_status r \<noteq> OPEN)"
  then obtain u where u: "find (\<lambda>u. u_id u = uid) (users w) = Some u"
    using find_present [of "users w" "\<lambda>u. u_id u = uid"] by blast
  from a have "find (\<lambda>r. sr_userId r = uid \<and> sr_status r = OPEN) (supportRequests w) = None"
    by (auto simp: find_None_iff)
  with a u show "sendHintOrFeedback e w req =
        (Json 403 (ErrorBody ''Cannot send hint: user has not requested support.''), w)"
    by (simp add: sendHintOrFeedback_def user_findUnique_def supportRequest_findFirst_def
        str_def)
qed

text \<open>
  An empty message, the unknown user \<open>u9\<close>, and \<open>u2\<close>, whose only request is closed.
\<close>

theorem sendHintOrFeedback_rejects_witness:
  "sendHintOrFeedback ex_env ex_world (send_to ''u1'' []) =
     (Json 400 (ErrorBody ''stepId and message are required.''), ex_world) \<and>
   sendHintOrFeedback ex_env ex_world (send_to ''u9'' ''try the left lever'') =
     (Json 404 (ErrorBody ''User not found.''), ex_world) \<and>
   sendHintOrFeedback ex_env ex_world (send_to ''u2'' ''try the left lever'') =
     (Json 403 (ErrorBody ''Cannot send hint: user has not requested support.''), ex_world)"
  using sendHintOrFeedback_rejects [of "send_to ''u1'' []" ex_env ex_world "''u1''"]
    sendHintOrFeedback_rejects [of "send_to ''u9'' ''try the left lever''" ex_env ex_world "''u9''"]
    sendHintOrFeedback_rejects [of "send_to ''u2'' ''try the left lever''" ex_env ex_world "''u2''"]
  by (simp add: send_to_def ex_request_def ex_env_def ex_world_def truthy_def)

section \<open>MarkViewed: who may mark a hint\<close>

text \<open>
  Claim C4. \<^verbatim>\<open>markHintAsViewed\<close> answers 404 (not found) when no hint has the given id;
  when the hint exists and the actor is neither its subject user nor an admin, it answers
  403 (forbidden) and returns the world as it was, so the hint keeps its status and its
  \<open>viewedAt\<close>. Whenever the hints table is changed at all, the hint was found and the
  actor is its subject user or an admin.
\<close>

theorem markHintAsViewed_guard:
  "(params_hintId req = Some hid \<and> \<not> store_throws e HintFindUnique \<and>
    (\<forall>h\<in>set (hints w). h_id h \<noteq> hid) \<longrightarrow>
      markHintAsViewed e w req = (Json 404 (ErrorBody ''Hint not found.''), w)) \<and>
   (params_hintId req = Some hid \<and> \<not> store_throws e HintFindUnique \<and>
    find (\<lambda>h. h_id h = hid) (hints w) = Some h \<and>
    user_id req \<noteq> Some (h_userId h) \<and> user_role req \<noteq> Some ADMIN \<longrightarrow>
      markHintAsViewed e w req = (Json 403 (ErrorBody ''Access denied.''), w)) \<and>
   (hints (snd (markHintAsViewed e w req)) \<noteq> hints w \<longrightarrow>
      (\<exists>i x. params_hintId req = Some i \<and> find (\<lambda>h. h_id h = i) (hints w) = Some x \<and>
         (user_id req = Some (h_userId x) \<or> user_role req = Some ADMIN)))"
proof (intro conjI impI)
  assume a: "params_hintId req = Some hid \<and> \<not> store_throws e HintFindUnique \<and>
    (\<forall>h\<in>set (hints w). h_id h \<noteq> hid)"
  then have "find (\<lambda>h. h_id h = hid) (hints w) = None"
    by (simp add: find_None_iff)
  with a show "markHintAsViewed e w req = (Json 404 (ErrorBody ''Hint not found.''), w)"
    by (simp add: markHintAsViewed_def hint_findUnique_def)
next
  assume "params_hintId req = Some hid \<and> \<not> store_throws e HintFindUnique \<and>
    find (\<lambda>h. h_id h = hid) (hints w) = Some h \<and>
    user_id req \<noteq> Some (h_userId h) \<and> user_role req \<noteq> Some ADMIN"
  then show "markHintAsViewed e w req = (Json 403 (ErrorBody ''Access denied.''), w)"
    by (simp add: markHintAsViewed_def hint_findUnique_def)
next
  assume "hints (snd (markHintAsViewed e w req)) \<noteq> hints w"
  then show "\<exists>i x. params_hintId req = Some i \<and> find (\<lambda>h. h_id h = i) (hints w) = Some x \<and>
         (user_id req = Some (h_userId x) \<or> user_role req = Some ADMIN)"
    by (auto simp: markHintAsViewed_def hint_findUnique_def hint_update_def catch_next_def
        logAuditEvent_eq Let_def split: if_splits option.splits sum.splits)
qed

text \<open>
  No hint \<open>h9\<close>; \<open>u2\<close> on the hint \<open>h1\<close> of \<open>u1\<close>; and \<open>u1\<close> on the own hint
  \<open>h1\<close>, which changes the table.
\<close>

theorem markHintAsViewed_guard_witness:
  "markHintAsViewed ex_env ex_world (view_by user2 ''h9'') =
     (Json 404 (ErrorBody ''Hint not found.''), ex_world) \<and>
   markHintAsViewed ex_env ex_world (view_by user2 ''h1'') =
     (Json 403 (ErrorBody ''Access denied.''), ex_world) \<and>
   hints (snd (markHintAsViewed ex_env ex_world (view_by user1 ''h1''))) \<noteq> hints ex_world \<and>
   user_id (view_by user1 ''h1'') = Some (h_userId ex_hint)"
  using markHintAsViewed_guard [of "view_by user2 ''h9''" "''h9''" ex_env ex_world ex_hint]
    markHintAsViewed_guard [of "view_by user2 ''h1''" "''h1''" ex_env ex_world ex_hint]
    markHintAsViewed_guard [of "view_by user1 ''h1''" "''h1''" ex_env ex_world ex_hint]
  by (simp add: view_by_def ex_request_def ex_env_def ex_world_def ex_hint_def
      ex_hint_other_def ex_hint_newer_def user1_def user2_def user_id_def user_role_def
      markHintAsViewed_def hint_findUnique_def hint_update_def logAuditEvent_eq Let_def)

section \<open>MarkViewed: no idempotency\<close>

text \<open>
  Claim C6. When the hint is already \<open>VIEWED\<close> and the actor is its subject user or an
  admin, \<^verbatim>\<open>markHintAsViewed\<close> (the store answering) succeeds again: the answer carries
  status \<open>VIEWED\<close> and the time of this invocation as \<open>viewedAt\<close>, and the stored hint
  has that new \<open>viewedAt\<close>, whatever it was before.
\<close>

theorem markHintAsViewed_again:
  assumes "params_hintId req = Some hid"
    and "find (\<lambda>x. h_id x = hid) (hints w) = Some h"
    and "h_status h = VIEWED"
    and "user_id req = Some (h_userId h) \<or> user_role req = Some ADMIN"
    and "\<not> store_throws e HintFindUnique" and "\<not> store_throws e HintUpdate"
  shows "fst (markHintAsViewed e w req) =
           Json 200 (HintViewedBody ''Hint marked as viewed.''
             \<lparr> hw_id = h_id h, hw_status = VIEWED, hw_viewedAt = Some (date_now e) \<rparr>) \<and>
         find (\<lambda>x. h_id x = hid) (hints (snd (markHintAsViewed e w req))) =
           Some (h\<lparr>h_status := VIEWED, h_viewedAt := Some (date_now e)\<rparr>)"
  using assms
  by (auto simp: markHintAsViewed_def hint_findUnique_def hint_update_def
        logAuditEvent_eq Let_def find_update_first)

text \<open>Hint \<open>h1\<close> was viewed at 5000; \<open>u1\<close> marks it again at 9000.\<close>

theorem markHintAsViewed_again_witness:
  "h_status ex_hint = VIEWED \<and> h_viewedAt ex_hint = Some 5000 \<and>
   fst (markHintAsViewed ex_env ex_world (view_by user1 ''h1'')) =
     Json 200 (HintViewedBody ''Hint marked as viewed.''
       \<lparr> hw_id = ''h1'', hw_status = VIEWED, hw_viewedAt = Some 9000 \<rparr>) \<and>
   find (\<lambda>x. h_id x = ''h1'')
       (hints (snd (markHintAsViewed ex_env ex_world (view_by user1 ''h1'')))) =
     Some (ex_hint\<lparr>h_viewedAt := Some 9000\<rparr>)"
proof -
  have "find (\<lambda>x. h_id x = ''h1'') (hints ex_world) = Some ex_hint"
    by (simp add: ex_world_def ex_hint_def)
  from markHintAsViewed_again [of "view_by user1 ''h1''" "''h1''" ex_world ex_hint ex_env,
      OF _ this]
  show ?thesis
    by (simp add: view_by_def ex_request_def ex_env_def ex_hint_def user1_def user_id_def)
qed

section \<open>CreateHint: the created hint\<close>

lemma sendNotificationToUser_keeps:
  "sendNotificationToUser e w u p = (r, w') \<Longrightarrow>
     hints w' = hints w \<and> auditLogs w' = auditLogs w"
  using sendNotificationToUser_store [of e w u p] by simp

text \<open>After a 201 the new hint is the last row of the table.\<close>

lemma sendHintOrFeedback_201:
  assumes "sendHintOrFeedback e w req = (Json 201 b, w')"
  shows "params_userId req = Some (h_userId (last (hints w'))) \<and>
         map_option sr_id
           (find (\<lambda>r. sr_userId r = h_userId (last (hints w')) \<and> sr_status r = OPEN)
              (supportRequests w)) = Some (h_supportRequestId (last (hints w'))) \<and>
         hints w' = hints w @ [last (hints w')] \<and>
         h_status (last (hints w')) = UNREAD \<and>
         h_sentById (last (hints w')) = (if truthy (user_id req) then user_id req else None) \<and>
         h_sentByRole (last (hints w')) = user_role req \<and>
         b = HintSentBody ''Hint/feedback sent successfully.''
               \<lparr> hs_id = h_id (last (hints w')), hs_stepId = h_stepId (last (hints w')),
                 hs_puzzleId = h_puzzleId (last (hints w')),
                 hs_message = h_message (last (hints w')),
                 hs_sentAt = h_createdAt (last (hints w')), hs_status = UNREAD \<rparr>"
  using assms
  by (auto simp: sendHintOrFeedback_def user_findUnique_def supportRequest_findFirst_def
        hint_create_def column_of_def logAuditEvent_eq catch_next_def Let_def str_def
      split: if_splits option.splits sum.splits prod.splits
      dest!: sendNotificationToUser_keeps)

text \<open>
  Claim C5, as the specification states it, fails for an actor whose id is the empty
  string: the code writes \<^verbatim>\<open>sentById: req.user?.id || null\<close>. The nameless specialist
  passes the role check of \<^verbatim>\<open>POST /hint/:userId\<close>, the answer is 201, and the created
  hint has no \<open>sentById\<close>, which is not the actor's id.
\<close>

theorem sendHintOrFeedback_empty_id_counterexample:
  "user (send_as nameless ''u1'' ''try the left lever'') = Some nameless \<and>
   fst (supportRoutes POST_hint ex_env ex_world (send_as nameless ''u1'' ''try the left lever'')) =
     Json 201 (HintSentBody ''Hint/feedback sent successfully.''
       \<lparr> hs_id = ''h2'', hs_stepId = ''step-3'', hs_puzzleId = None,
         hs_message = ''try the left lever'', hs_sentAt = 8000, hs_status = UNREAD \<rparr>) \<and>
   length (hints (snd (supportRoutes POST_hint ex_env ex_world
                         (send_as nameless ''u1'' ''try the left lever'')))) =
     length (hints ex_world) + 1 \<and>
   h_sentById (last (hints (snd (supportRoutes POST_hint ex_env ex_world
                                   (send_as nameless ''u1'' ''try the left lever''))))) = None \<and>
   h_sentById (last (hints (snd (supportRoutes POST_hint ex_env ex_world
                                   (send_as nameless ''u1'' ''try the left lever''))))) \<noteq>
     Some (a_id nameless)"
  by (simp add: run_route_def authorizeSupportSpecialist_def sendHintOrFeedback_def
      send_as_def nameless_def ex_request_def ex_env_def ex_world_def truthy_def str_def
      user_id_def user_role_def user_findUnique_def supportRequest_findFirst_def
      hint_create_def column_of_def logAuditEvent_eq sendNotificationToUser_def Let_def)

text \<open>
  Claim C5, amended. Whenever \<^verbatim>\<open>sendHintOrFeedback\<close> answers 201, exactly one hint has
  been appended; it is for the target user, has status \<open>UNREAD\<close>, its \<open>sentByRole\<close> is
  the actor's role, its \<open>sentById\<close> is the actor's id when that id is not empty and is
  null when it is empty, and its \<open>supportRequestId\<close> is the id of the first \<open>OPEN\<close>
  support request of the target user; the answer carries the fields of that hint.
  (Without an actor on the request both sender fields are null.)
\<close>

theorem sendHintOrFeedback_created:
  assumes "sendHintOrFeedback e w req = (Json 201 b, w')"
  shows "\<exists>h sr uid. params_userId req = Some uid \<and>
           find (\<lambda>r. sr_userId r = uid \<and> sr_status r = OPEN) (supportRequests w) = Some sr \<and>
           hints w' = hints w @ [h] \<and>
           h_userId h = uid \<and> h_status h = UNREAD \<and>
           h_sentById h =
             (case user req of None \<Rightarrow> None
              | Some a \<Rightarrow> if a_id a = [] then None else Some (a_id a)) \<and>
           h_sentByRole h = map_option a_role (user req) \<and>
           h_supportRequestId h = sr_id sr \<and>
           b = HintSentBody ''Hint/feedback sent successfully.''
                 \<lparr> hs_id = h_id h, hs_stepId = h_stepId h, hs_puzzleId = h_puzzleId h,
                   hs_message = h_message h, hs_sentAt = h_createdAt h, hs_status = UNREAD \<rparr>"
proof -
  let ?h = "last (hints w')"
  note r = sendHintOrFeedback_201 [OF assms]
  from r obtain sr where sr:
    "find (\<lambda>r. sr_userId r = h_userId ?h \<and> sr_status r = OPEN) (supportRequests w) = Some sr"
    "h_supportRequestId ?h = sr_id sr"
    by auto
  from r have by_actor:
    "h_sentById ?h =
       (case user req of None \<Rightarrow> None
        | Some a \<Rightarrow> if a_id a = [] then None else Some (a_id a))"
    "h_sentByRole ?h = map_option a_role (user req)"
    by (simp_all add: user_id_def user_role_def truthy_def split: option.split)
  from r sr by_actor show ?thesis
    by (intro exI [of _ ?h] exI [of _ sr] exI [of _ "h_userId ?h"]) simp
qed

text \<open>
  The scenario of the specification: specialist \<open>s1\<close> sends ``try the left lever'' on
  \<open>step-3\<close> to \<open>u1\<close>, whose request \<open>r1\<close> is open.
\<close>

theorem sendHintOrFeedback_created_witness:
  "fst (sendHintOrFeedback ex_env ex_world (send_to ''u1'' ''try the left lever'')) =
     Json 201 (HintSentBody ''Hint/feedback sent successfully.''
       \<lparr> hs_id = ''h2'', hs_stepId = ''step-3'', hs_puzzleId = None,
         hs_message = ''try the left lever'', hs_sentAt = 8000, hs_status = UNREAD \<rparr>) \<and>
   (\<exists>h. hints (snd (sendHintOrFeedback ex_env ex_world (send_to ''u1'' ''try the left lever'')))
           = hints ex_world @ [h] \<and>
         h_userId h = ''u1'' \<and> h_status h = UNREAD \<and> h_sentById h = Some ''s1'' \<and>
         h_sentByRole h = Some SUPPORT_SPECIALIST \<and> h_supportRequestId h = ''r1'')"
proof -
  let ?run = "sendHintOrFeedback ex_env ex_world (send_to ''u1'' ''try the left lever'')"
  let ?b = "HintSentBody ''Hint/feedback sent successfully.''
       \<lparr> hs_id = ''h2'', hs_stepId = ''step-3'', hs_puzzleId = None,
         hs_message = ''try the left lever'', hs_sentAt = 8000, hs_status = UNREAD \<rparr>"
  have answer: "fst ?run = Json 201 ?b"
    by (simp add: sendHintOrFeedback_def send_to_def ex_request_def ex_env_def ex_world_def
        specialist_def truthy_def str_def user_id_def user_role_def user_findUnique_def
        supportRequest_findFirst_def hint_create_def column_of_def logAuditEvent_eq
        sendNotificationToUser_def Let_def)
  then have run: "?run = (Json 201 ?b, snd ?run)"
    by (simp add: prod_eq_iff)
  from sendHintOrFeedback_created [OF run]
  obtain h sr uid where h:
    "params_userId (send_to ''u1'' ''try the left lever'') = Some uid"
    "find (\<lambda>r. sr_userId r = uid \<and> sr_status r = OPEN) (supportRequests ex_world) = Some sr"
    "hints (snd ?run) = hints ex_world @ [h]"
    "h_userId h = uid" "h_status h = UNREAD"
    "h_sentById h =
       (case user (send_to ''u1'' ''try the left lever'') of None \<Rightarrow> None
        | Some a \<Rightarrow> if a_id a = [] then None else Some (a_id a))"
    "h_sentByRole h = map_option a_role (user (send_to ''u1'' ''try the left lever''))"
    "h_supportRequestId h = sr_id sr"
    by blast
  from h(1) have "uid = ''u1''"
    by (simp add: send_to_def)
  with h(2) have "sr_id sr = ''r1''"
    by (auto simp: ex_world_def)
  with h \<open>uid = ''u1''\<close> have "hints (snd ?run) = hints ex_world @ [h] \<and>
         h_userId h = ''u1'' \<and> h_status h = UNREAD \<and> h_sentById h = Some ''s1'' \<and>
         h_sentByRole h = Some SUPPORT_SPECIALIST \<and> h_supportRequestId h = ''r1''"
    by (simp add: send_to_def specialist_def)
  with answer show ?thesis by blast
qed

section \<open>ListHints for a plain user\<close>

lemma sorted_desc_sort_key:
  "sorted_wrt (\<lambda>x y. f y \<le> f x) (sort_key (\<lambda>x. - f x) (xs :: 'a list))"
  for f :: "'a \<Rightarrow> int"
  using sorted_sort_key [of "\<lambda>x. - f x" xs] by (simp add: sorted_wrt_map)

text \<open>
  Claim C7. For an actor with role \<open>USER\<close>, whenever \<^verbatim>\<open>getUserHints\<close> answers with a
  list, the list is the selection of stored hints that are exactly the hints whose
  \<open>userId\<close> is the actor's id, newest first. It does answer with a list when the actor's
  id is non-empty and the store answers. The user id in the route parameters, the body
  or the query plays no part: the result is the same whatever they are.
\<close>

theorem getUserHints_user_own:
  assumes "user req = Some a" and "a_role a = USER"
  shows "(\<forall>vs w'. getUserHints e w req = (Json 200 (HintsBody vs), w') \<longrightarrow>
            (\<exists>hs. vs = map hint_select hs \<and>
                   set hs = {h \<in> set (hints w). h_userId h = a_id a} \<and>
                   sorted_wrt (\<lambda>x y. h_createdAt y \<le> h_createdAt x) hs)) \<and>
         (a_id a \<noteq> [] \<and> \<not> store_throws e HintFindMany \<longrightarrow>
            (\<exists>vs. fst (getUserHints e w req) = Json 200 (HintsBody vs))) \<and>
         getUserHints e w (req\<lparr>params_userId := p, body_userId := b, query_userId := q\<rparr>) =
           getUserHints e w req"
proof (intro conjI allI impI)
  fix vs w'
  assume "getUserHints e w req = (Json 200 (HintsBody vs), w')"
  with assms have "vs = map hint_select
      (sort_key (\<lambda>h. - h_createdAt h) (filter (\<lambda>h. h_userId h = a_id a) (hints w)))"
    by (auto simp: getUserHints_def hint_findMany_def logAuditEvent_eq catch_next_def
        user_id_def user_role_def str_def Let_def split: if_splits)
  moreover
  have "set (sort_key (\<lambda>h. - h_createdAt h) (filter (\<lambda>h. h_userId h = a_id a) (hints w)))
      = {h \<in> set (hints w). h_userId h = a_id a}"
    by simp
  ultimately show "\<exists>hs. vs = map hint_select hs \<and>
                   set hs = {h \<in> set (hints w). h_userId h = a_id a} \<and>
                   sorted_wrt (\<lambda>x y. h_createdAt y \<le> h_createdAt x) hs"
    using sorted_desc_sort_key [of h_createdAt] by blast
next
  assume "a_id a \<noteq> [] \<and> \<not> store_throws e HintFindMany"
  with assms show "\<exists>vs. fst (getUserHints e w req) = Json 200 (HintsBody vs)"
    by (simp add: getUserHints_def hint_findMany_def logAuditEvent_eq
        user_id_def user_role_def truthy_def Let_def)
next
  from assms
  show "getUserHints e w (req\<lparr>params_userId := p, body_userId := b, query_userId := q\<rparr>) =
           getUserHints e w req"
    by (simp add: getUserHints_def user_id_def user_role_def
        actor_id_or_unknown_def actor_role_or_unknown_def Let_def cong: sum.case_cong)
qed

text \<open>
  User \<open>u1\<close> lists hints and asks for those of \<open>u2\<close> in the query: the answer is the
  two hints of \<open>u1\<close>, the newer \<open>h3\<close> first, and not the hint \<open>h0\<close> of \<open>u2\<close>.
\<close>

theorem getUserHints_user_own_witness:
  "fst (getUserHints ex_env ex_world (list_by user1 None (Some ''u2''))) =
     Json 200 (HintsBody [hint_select ex_hint_newer, hint_select ex_hint]) \<and>
   getUserHints ex_env ex_world (list_by user1 None (Some ''u2'')) =
     getUserHints ex_env ex_world (list_by user1 None None)"
proof -
  have same: "(list_by user1 None None)
      \<lparr>params_userId := None, body_userId := None, query_userId := Some ''u2''\<rparr> =
      list_by user1 None (Some ''u2'')"
    by (simp add: list_by_def ex_request_def)
  have answer: "fst (getUserHints ex_env ex_world (list_by user1 None (Some ''u2''))) =
     Json 200 (HintsBody [hint_select ex_hint_newer, hint_select ex_hint])"
    by (simp add: getUserHints_def list_by_def ex_request_def ex_env_def ex_world_def
        user1_def ex_hint_def ex_hint_other_def ex_hint_newer_def hint_findMany_def
        logAuditEvent_eq user_id_def user_role_def truthy_def str_def Let_def)
  from getUserHints_user_own [where req = "list_by user1 None None" and a = user1
      and e = ex_env and w = ex_world and p = None and b = None and q = "Some ''u2''"]
  have "getUserHints ex_env ex_world ((list_by user1 None None)
      \<lparr>params_userId := None, body_userId := None, query_userId := Some ''u2''\<rparr>) =
      getUserHints ex_env ex_world (list_by user1 None None)"
    by (simp add: list_by_def user1_def)
  then have "getUserHints ex_env ex_world (list_by user1 None (Some ''u2'')) =
      getUserHints ex_env ex_world (list_by user1 None None)"
    by (simp only: same)
  with answer show ?thesis by simp
qed

section \<open>The user-or-specialist authorization\<close>

text \<open>
  Claim C2, as the specification states it, fails: user \<open>u1\<close>, who supplies the own id
  \<open>u1\<close> in the body of a list-hints request, is let through, while the stated rule
  denies every user that supplies an explicit target.
\<close>

theorem authorizeUserOrSupportSpecialist_own_id_counterexample:
  "user_role (list_by user1 (Some ''u1'') None) = Some USER \<and>
   body_userId (list_by user1 (Some ''u1'') None) = Some (a_id user1) \<and>
   authorizeUserOrSupportSpecialist (list_by user1 (Some ''u1'') None) = CallNext \<and>
   \<not> spec_list_own_hints_allows (list_by user1 (Some ''u1'') None)"
  by (simp add: authorizeUserOrSupportSpecialist_def spec_list_own_hints_allows_def
      list_by_def ex_request_def user1_def user_role_def user_id_def userIdParam_def
      js_or_def truthy_def)

text \<open>
  Claim C2, amended. \<^verbatim>\<open>authorizeUserOrSupportSpecialist\<close> lets the request through if
  and only if the actor's role is \<open>SUPPORT_SPECIALIST\<close> or \<open>ADMIN\<close>, or the role is
  \<open>USER\<close> and the user id the request carries (the route parameter, or else the one in
  the body; the query is not looked at) is absent or empty, or equal to the actor's own
  id. In every other case it answers 403.
\<close>

theorem authorizeUserOrSupportSpecialist_decision:
  "(authorizeUserOrSupportSpecialist req = CallNext) =
     (user_role req = Some SUPPORT_SPECIALIST \<or> user_role req = Some ADMIN \<or>
      (user_role req = Some USER \<and>
       (\<not> truthy (userIdParam req) \<or> userIdParam req = user_id req))) \<and>
   (authorizeUserOrSupportSpecialist req = CallNext \<or>
    authorizeUserOrSupportSpecialist req = Respond 403 ''Access denied.'')"
proof (cases "user req")
  case None
  then show ?thesis
    by (auto simp: authorizeUserOrSupportSpecialist_def user_role_def user_id_def truthy_def)
next
  case (Some a)
  then show ?thesis
    by (cases "a_role a")
      (auto simp: authorizeUserOrSupportSpecialist_def user_role_def user_id_def)
qed

text \<open>
  User \<open>u1\<close> with the own id in the body, and with no id at all, passes; with the id
  of \<open>u2\<close> in the body the answer is 403; the specialist passes with any id.
\<close>

theorem authorizeUserOrSupportSpecialist_decision_witness:
  "authorizeUserOrSupportSpecialist (list_by user1 (Some ''u1'') None) = CallNext \<and>
   authorizeUserOrSupportSpecialist (list_by user1 None (Some ''u2'')) = CallNext \<and>
   authorizeUserOrSupportSpecialist (list_by user1 (Some ''u2'') None) =
     Respond 403 ''Access denied.'' \<and>
   authorizeUserOrSupportSpecialist (list_by specialist (Some ''u2'') None) = CallNext"
  using authorizeUserOrSupportSpecialist_decision [of "list_by user1 (Some ''u1'') None"]
    authorizeUserOrSupportSpecialist_decision [of "list_by user1 None (Some ''u2'')"]
    authorizeUserOrSupportSpecialist_decision [of "list_by user1 (Some ''u2'') None"]
    authorizeUserOrSupportSpecialist_decision [of "list_by specialist (Some ''u2'') None"]
  by (simp add: authorizeUserOrSupportSpecialist_def list_by_def ex_request_def user1_def
      specialist_def user_role_def user_id_def userIdParam_def js_or_def truthy_def)

text \<open>
  Claim C10. For an actor with role \<open>USER\<close>: when the request carries a user id (the
  route parameter, or else the one in the body; non-empty) that is not the actor's own,
  the middleware answers 403 and whatever controller stands behind it on the route is
  not run: the answer is the 403 and the world is untouched. On the two routes that use
  this middleware, \<^verbatim>\<open>GET /hint\<close> and \<^verbatim>\<open>POST /hint/view/:hintId\<close>, which have no
  \<^verbatim>\<open>:userId\<close> parameter, this is the user id in the body.
\<close>

theorem authorizeUserOrSupportSpecialist_other_user:
  assumes "user req = Some a" and "a_role a = USER"
  shows "(truthy (userIdParam req) \<and> userIdParam req \<noteq> Some (a_id a) \<longrightarrow>
            authorizeUserOrSupportSpecialist req = Respond 403 ''Access denied.'' \<and>
            run_route authorizeUserOrSupportSpecialist ctrl e w req =
              (Json 403 (ErrorBody ''Access denied.''), w)) \<and>
         (truthy (body_userId req) \<and> body_userId req \<noteq> Some (a_id a) \<longrightarrow>
            supportRoutes GET_hint e w req = (Json 403 (ErrorBody ''Access denied.''), w) \<and>
            supportRoutes POST_hint_view e w req =
              (Json 403 (ErrorBody ''Access denied.''), w))"
  using assms
  by (simp add: run_route_def authorizeUserOrSupportSpecialist_def user_role_def user_id_def
      userIdParam_def js_or_def truthy_def)

text \<open>
  User \<open>u1\<close> asks for the hints of \<open>u2\<close> in the body: 403 and nothing done, where
  without the id the same user gets the own list.
\<close>

theorem authorizeUserOrSupportSpecialist_other_user_witness:
  "authorizeUserOrSupportSpecialist (list_by user1 (Some ''u2'') None) =
     Respond 403 ''Access denied.'' \<and>
   run_route authorizeUserOrSupportSpecialist getUserHints ex_env ex_world
       (list_by user1 (Some ''u2'') None) =
     (Json 403 (ErrorBody ''Access denied.''), ex_world) \<and>
   supportRoutes GET_hint ex_env ex_world (list_by user1 (Some ''u2'') None) =
     (Json 403 (ErrorBody ''Access denied.''), ex_world) \<and>
   fst (supportRoutes GET_hint ex_env ex_world (list_by user1 None None)) =
     Json 200 (HintsBody [hint_select ex_hint_newer, hint_select ex_hint])"
proof -
  have own: "fst (supportRoutes GET_hint ex_env ex_world (list_by user1 None None)) =
     Json 200 (HintsBody [hint_select ex_hint_newer, hint_select ex_hint])"
    by (simp add: run_route_def authorizeUserOrSupportSpecialist_def userIdParam_def js_or_def
        getUserHints_def list_by_def ex_request_def ex_env_def ex_world_def
        user1_def ex_hint_def ex_hint_other_def ex_hint_newer_def hint_findMany_def
        logAuditEvent_eq user_id_def user_role_def truthy_def str_def Let_def)
  from authorizeUserOrSupportSpecialist_other_user
      [of "list_by user1 (Some ''u2'') None" user1 getUserHints ex_env ex_world] own
  show ?thesis
    by (simp add: list_by_def ex_request_def user1_def userIdParam_def js_or_def truthy_def)
qed

section \<open>Dispatch to a user without a live connection\<close>

text \<open>
  Claim C9. When the socket server is not initialised, or the directory has no entry or
  an empty set of sockets for the user, \<^verbatim>\<open>sendNotificationToUser\<close> returns normally
  and the only thing it does is to write one line to the console (with
  \<^verbatim>\<open>console.error\<close> in the first case, with \<^verbatim>\<open>console.warn\<close> in the other): nothing is
  emitted and nothing is stored anywhere for a later delivery.
\<close>

theorem sendNotificationToUser_not_connected:
  assumes "\<not> io w \<or> userSocketMap w userId = None \<or> userSocketMap w userId = Some []"
  shows "sendNotificationToUser e w userId payload =
           (Inr (),
            w\<lparr>console := console w @
               [if \<not> io w
                then (LogError, ''Socket.io not initialized. Cannot send notification.'')
                else (LogWarn, ''User '' @ userId @
                        '' not connected. Notification not delivered in real-time.'')]\<rparr>)"
  using assms by (auto simp: sendNotificationToUser_def Let_def)

text \<open>
  A notification for \<open>u2\<close>, who has no socket, and one for \<open>u1\<close> while the socket
  server is not initialised.
\<close>

theorem sendNotificationToUser_not_connected_witness:
  "fst (sendNotificationToUser ex_env ex_world ''u2'' ex_payload) = Inr () \<and>
   emitted (snd (sendNotificationToUser ex_env ex_world ''u2'' ex_payload)) = [] \<and>
   console (snd (sendNotificationToUser ex_env ex_world ''u2'' ex_payload)) =
     [(LogWarn, ''User u2 not connected. Notification not delivered in real-time.'')] \<and>
   fst (sendNotificationToUser ex_env (ex_world\<lparr>io := False\<rparr>) ''u1'' ex_payload) = Inr () \<and>
   emitted (snd (sendNotificationToUser ex_env (ex_world\<lparr>io := False\<rparr>) ''u1'' ex_payload)) = [] \<and>
   console (snd (sendNotificationToUser ex_env (ex_world\<lparr>io := False\<rparr>) ''u1'' ex_payload)) =
     [(LogError, ''Socket.io not initialized. Cannot send notification.'')]"
  using sendNotificationToUser_not_connected [of ex_world "''u2''" ex_env ex_payload]
    sendNotificationToUser_not_connected [of "ex_world\<lparr>io := False\<rparr>" "''u1''" ex_env ex_payload]
  by (simp add: ex_world_def)

section \<open>The audit recorder never raises\<close>

text \<open>What \<^verbatim>\<open>sendNotificationToUser\<close> does depends on the socket state only.\<close>

lemma emit_each_indep:
  "emitted w = emitted w' \<Longrightarrow> emit_throws e = emit_throws e' \<Longrightarrow>
     fst (emit_each e p w ss) = fst (emit_each e' p w' ss) \<and>
     emitted (snd (emit_each e p w ss)) = emitted (snd (emit_each e' p w' ss))"
proof (induction ss arbitrary: w w')
  case Nil
  then show ?case by simp
next
  case (Cons s ss)
  from Cons.prems
  have "emitted (w\<lparr>emitted := emitted w @ [(s, p)]\<rparr>) =
        emitted (w'\<lparr>emitted := emitted w' @ [(s, p)]\<rparr>)"
    by simp
  from Cons.IH [OF this Cons.prems(2)] Cons.prems show ?case
    by simp
qed

lemma sendNotificationToUser_indep:
  assumes "io w = io w'" and "userSocketMap w = userSocketMap w'"
    and "emitted w = emitted w'" and "emit_throws e = emit_throws e'"
  shows "fst (sendNotificationToUser e w u p) = fst (sendNotificationToUser e' w' u p) \<and>
         emitted (snd (sendNotificationToUser e w u p)) =
           emitted (snd (sendNotificationToUser e' w' u p))"
  using assms emit_each_indep [OF assms(3,4), of p]
  by (simp add: sendNotificationToUser_def Let_def split: option.splits)

lemma send_after_audit:
  "fst (sendNotificationToUser (audit_write_throws b e) (w\<lparr>console := c\<rparr>) u p) =
     fst (sendNotificationToUser e w u p)"
  "fst (sendNotificationToUser (audit_write_throws b e) (w\<lparr>auditLogs := l\<rparr>) u p) =
     fst (sendNotificationToUser e w u p)"
  "emitted (snd (sendNotificationToUser (audit_write_throws b e) (w\<lparr>console := c\<rparr>) u p)) =
     emitted (snd (sendNotificationToUser e w u p))"
  "emitted (snd (sendNotificationToUser (audit_write_throws b e) (w\<lparr>auditLogs := l\<rparr>) u p)) =
     emitted (snd (sendNotificationToUser e w u p))"
  using sendNotificationToUser_indep [of "w\<lparr>console := c\<rparr>" w "audit_write_throws b e" e u p]
    sendNotificationToUser_indep [of "w\<lparr>auditLogs := l\<rparr>" w "audit_write_throws b e" e u p]
  by (simp_all add: audit_write_throws_def)

text \<open>The end of a controller, after its last awaited call \<open>X\<close>.\<close>

lemma after_call:
  "fst (case X of (Inl err, w3) \<Rightarrow> catch_next m err w3 | (Inr u, w3) \<Rightarrow> (R, w3)) =
     (case fst X of Inl err \<Rightarrow> NextError err | Inr u \<Rightarrow> R)"
  "hints (snd (case X of (Inl err, w3) \<Rightarrow> catch_next m err w3 | (Inr u, w3) \<Rightarrow> (R, w3))) =
     hints (snd X)"
  "emitted (snd (case X of (Inl err, w3) \<Rightarrow> catch_next m err w3 | (Inr u, w3) \<Rightarrow> (R, w3))) =
     emitted (snd X)"
  by (cases X; cases "fst X"; simp add: catch_next_def)+

lemma store_audit_write_throws:
  "user_findUnique (audit_write_throws b e) = user_findUnique e"
  "supportRequest_findFirst (audit_write_throws b e) = supportRequest_findFirst e"
  "hint_create (audit_write_throws b e) = hint_create e"
  "hint_findMany (audit_write_throws b e) = hint_findMany e"
  "hint_findUnique (audit_write_throws b e) = hint_findUnique e"
  "hint_update (audit_write_throws b e) = hint_update e"
  "progressLog_findMany (audit_write_throws b e) = progressLog_findMany e"
  "date_now (audit_write_throws b e) = date_now e"
  by (auto simp: fun_eq_iff audit_write_throws_def user_findUnique_def
      supportRequest_findFirst_def hint_create_def column_of_def hint_findMany_def hint_findUnique_def
      hint_update_def progressLog_findMany_def)

lemma logAuditEvent_audit_write_throws:
  "logAuditEvent (audit_write_throws b e) w p =
     (Inr (),
      if b then w\<lparr>console := console w @ [(LogError, ''Audit log error:'')]\<rparr>
      else w\<lparr>auditLogs := auditLogs w @
             [\<lparr> al_actorId = actorId p, al_actorRole = actorRole p, al_action = action p,
                al_targetUserId = targetUserId p,
                al_metadata = map_option json_stringify (metadata p),
                al_timestamp = audit_date_now e \<rparr>]\<rparr>)"
  by (simp add: logAuditEvent_eq audit_write_throws_def)

lemma sendHintOrFeedback_audit_indep:
  "fst (sendHintOrFeedback (audit_write_throws b e) w req) =
     fst (sendHintOrFeedback (audit_write_throws c e) w req) \<and>
   hints (snd (sendHintOrFeedback (audit_write_throws b e) w req)) =
     hints (snd (sendHintOrFeedback (audit_write_throws c e) w req)) \<and>
   emitted (snd (sendHintOrFeedback (audit_write_throws b e) w req)) =
     emitted (snd (sendHintOrFeedback (audit_write_throws c e) w req))"
proof (cases "\<not> truthy (body_stepId req) \<or> \<not> truthy (body_message req)")
  case True
  then show ?thesis by (auto simp: sendHintOrFeedback_def)
next
  case valid: False
  show ?thesis
  proof (cases "user_findUnique e w (params_userId req)")
    case (Inl err)
    with valid show ?thesis
      by (simp add: sendHintOrFeedback_def Let_def store_audit_write_throws catch_next_def)
  next
    case found: (Inr uo)
    show ?thesis
    proof (cases "supportRequest_findFirst e w (str (params_userId req)) OPEN")
      case (Inl err)
      with valid found show ?thesis
        by (simp add: sendHintOrFeedback_def Let_def store_audit_write_throws catch_next_def
            split: option.split)
    next
      case req_found: (Inr sro)
      show ?thesis
      proof (cases "store_throws e HintCreate")
        case True
        with valid found req_found show ?thesis
          by (simp add: sendHintOrFeedback_def Let_def store_audit_write_throws
              catch_next_def hint_create_def column_of_def split: option.split)
      next
        case False
        with valid found req_found show ?thesis
          by (simp add: sendHintOrFeedback_def store_audit_write_throws
              hint_create_def column_of_def Let_def logAuditEvent_audit_write_throws after_call
              send_after_audit sendNotificationToUser_store
              split: option.split)
      qed
    qed
  qed
qed

lemma getUserHints_audit_indep:
  "fst (getUserHints (audit_write_throws b e) w req) =
     fst (getUserHints (audit_write_throws c e) w req) \<and>
   hints (snd (getUserHints (audit_write_throws b e) w req)) =
     hints (snd (getUserHints (audit_write_throws c e) w req)) \<and>
   emitted (snd (getUserHints (audit_write_throws b e) w req)) =
     emitted (snd (getUserHints (audit_write_throws c e) w req))"
  by (simp add: getUserHints_def Let_def store_audit_write_throws
      logAuditEvent_audit_write_throws catch_next_def
      split: sum.splits)

lemma markHintAsViewed_audit_indep:
  "fst (markHintAsViewed (audit_write_throws b e) w req) =
     fst (markHintAsViewed (audit_write_throws c e) w req) \<and>
   hints (snd (markHintAsViewed (audit_write_throws b e) w req)) =
     hints (snd (markHintAsViewed (audit_write_throws c e) w req)) \<and>
   emitted (snd (markHintAsViewed (audit_write_throws b e) w req)) =
     emitted (snd (markHintAsViewed (audit_write_throws c e) w req))"
  by (simp add: markHintAsViewed_def Let_def store_audit_write_throws
      logAuditEvent_audit_write_throws catch_next_def
      split: sum.splits option.splits prod.splits)

lemma getUserProgress_audit_indep:
  "fst (getUserProgress (audit_write_throws b e) w req) =
     fst (getUserProgress (audit_write_throws c e) w req) \<and>
   hints (snd (getUserProgress (audit_write_throws b e) w req)) =
     hints (snd (getUserProgress (audit_write_throws c e) w req)) \<and>
   emitted (snd (getUserProgress (audit_write_throws b e) w req)) =
     emitted (snd (getUserProgress (audit_write_throws c e) w req))"
  by (simp add: getUserProgress_def Let_def store_audit_write_throws
      logAuditEvent_audit_write_throws catch_next_def
      split: sum.splits option.splits)

text \<open>
  Claim C8. \<^verbatim>\<open>logAuditEvent\<close> returns normally for every event, every world and every
  environment, so also when the write to the audit table throws. For each of the four
  operations the answer, the hints table and the notifications emitted are the same
  whether that write throws or not.
\<close>

theorem logAuditEvent_never_raises:
  "fst (logAuditEvent e w p) = Inr () \<and>
   fst (controller opn (audit_write_throws True e) w req) =
     fst (controller opn (audit_write_throws False e) w req) \<and>
   hints (snd (controller opn (audit_write_throws True e) w req)) =
     hints (snd (controller opn (audit_write_throws False e) w req)) \<and>
   emitted (snd (controller opn (audit_write_throws True e) w req)) =
     emitted (snd (controller opn (audit_write_throws False e) w req))"
  using sendHintOrFeedback_audit_indep [of True e w req False]
    getUserHints_audit_indep [of True e w req False]
    markHintAsViewed_audit_indep [of True e w req False]
    getUserProgress_audit_indep [of True e w req False]
  by (cases opn) (simp_all add: logAuditEvent_eq)

text \<open>
  The specialist's hint to \<open>u1\<close> while the audit table cannot be written: the answer is
  the 201 all the same, the failure is on the console and no audit row is written.
\<close>

theorem logAuditEvent_never_raises_witness:
  "fst (logAuditEvent (audit_write_throws True ex_env) ex_world
          \<lparr> actorId = ''s1'', actorRole = ''support_specialist'', action = ''SEND_HINT'',
            targetUserId = Some ''u1'', metadata = Some [] \<rparr>) = Inr () \<and>
   fst (controller CreateHint (audit_write_throws True ex_env) ex_world
          (send_to ''u1'' ''try the left lever'')) =
   fst (controller CreateHint (audit_write_throws False ex_env) ex_world
          (send_to ''u1'' ''try the left lever'')) \<and>
   fst (controller CreateHint (audit_write_throws True ex_env) ex_world
          (send_to ''u1'' ''try the left lever'')) =
     Json 201 (HintSentBody ''Hint/feedback sent successfully.''
       \<lparr> hs_id = ''h2'', hs_stepId = ''step-3'', hs_puzzleId = None,
         hs_message = ''try the left lever'', hs_sentAt = 8000, hs_status = UNREAD \<rparr>) \<and>
   auditLogs (snd (controller CreateHint (audit_write_throws True ex_env) ex_world
          (send_to ''u1'' ''try the left lever''))) = [] \<and>
   console (snd (controller CreateHint (audit_write_throws True ex_env) ex_world
          (send_to ''u1'' ''try the left lever''))) = [(LogError, ''Audit log error:'')]"
proof -
  let ?req = "send_to ''u1'' ''try the left lever''"
  have run: "fst (sendHintOrFeedback (audit_write_throws True ex_env) ex_world ?req) =
     Json 201 (HintSentBody ''Hint/feedback sent successfully.''
       \<lparr> hs_id = ''h2'', hs_stepId = ''step-3'', hs_puzzleId = None,
         hs_message = ''try the left lever'', hs_sentAt = 8000, hs_status = UNREAD \<rparr>) \<and>
     auditLogs (snd (sendHintOrFeedback (audit_write_throws True ex_env) ex_world ?req)) = [] \<and>
     console (snd (sendHintOrFeedback (audit_write_throws True ex_env) ex_world ?req)) =
       [(LogError, ''Audit log error:'')]"
    by (simp add: sendHintOrFeedback_def send_to_def ex_request_def ex_env_def ex_world_def
        audit_write_throws_def specialist_def truthy_def str_def user_id_def user_role_def
        user_findUnique_def supportRequest_findFirst_def hint_create_def column_of_def logAuditEvent_eq
        sendNotificationToUser_def Let_def)
  from logAuditEvent_never_raises [of "audit_write_throws True ex_env" ex_world
      "\<lparr> actorId = ''s1'', actorRole = ''support_specialist'', action = ''SEND_HINT'',
        targetUserId = Some ''u1'', metadata = Some [] \<rparr>"]
    logAuditEvent_never_raises [of ex_env ex_world _ CreateHint ?req] run
  show ?thesis by simp
qed

section \<open>Audit events of the four operations\<close>

text \<open>
  Claim C3, as the specification states it, fails: an invocation that is rejected writes
  no audit event. The specialist's hint with an empty message is rejected with 400, and
  viewing the progress of \<open>u2\<close>, who has no open request, with 403; the audit table is
  as it was. And when the write to the audit table throws, an invocation that succeeds
  leaves no audit event either.
\<close>

theorem rejected_invocation_no_audit_counterexample:
  "fst (controller CreateHint ex_env ex_world (send_to ''u1'' [])) =
     Json 400 (ErrorBody ''stepId and message are required.'') \<and>
   auditLogs (snd (controller CreateHint ex_env ex_world (send_to ''u1'' []))) =
     auditLogs ex_world \<and>
   fst (controller ViewProgress ex_env ex_world (progress_of ''u2'')) =
     Json 403 (ErrorBody ''No active support request for this user.'') \<and>
   auditLogs (snd (controller ViewProgress ex_env ex_world (progress_of ''u2''))) =
     auditLogs ex_world \<and>
   fst (controller CreateHint (audit_write_throws True ex_env) ex_world
          (send_to ''u1'' ''try the left lever'')) =
     Json 201 (HintSentBody ''Hint/feedback sent successfully.''
       \<lparr> hs_id = ''h2'', hs_stepId = ''step-3'', hs_puzzleId = None,
         hs_message = ''try the left lever'', hs_sentAt = 8000, hs_status = UNREAD \<rparr>) \<and>
   auditLogs (snd (controller CreateHint (audit_write_throws True ex_env) ex_world
          (send_to ''u1'' ''try the left lever''))) = auditLogs ex_world"
  by (simp add: sendHintOrFeedback_def getUserProgress_def send_to_def progress_of_def
      ex_request_def ex_env_def ex_world_def audit_write_throws_def specialist_def
      truthy_def str_def user_id_def user_role_def user_findUnique_def
      supportRequest_findFirst_def hint_create_def column_of_def logAuditEvent_eq
      sendNotificationToUser_def Let_def)

text \<open>The only exceptions of the notification service are those of \<^verbatim>\<open>emit\<close>.\<close>

lemma emit_each_throws:
  "fst (emit_each e p w ss) = Inl err \<Longrightarrow> \<exists>s. err = EmitError s"
  by (induction ss arbitrary: w) (auto split: if_splits)

lemma sendNotificationToUser_outcome:
  assumes "sendNotificationToUser e w u p = (r, w')"
  shows "hints w' = hints w \<and> auditLogs w' = auditLogs w \<and>
         (case r of Inl err \<Rightarrow> performed (NextError err) | Inr x \<Rightarrow> True)"
proof -
  have "\<exists>s. err = EmitError s" if "r = Inl err" for err
  proof -
    from assms that have "fst (sendNotificationToUser e w u p) = Inl err"
      by simp
    then show ?thesis
      by (auto simp: sendNotificationToUser_def Let_def
          split: if_splits option.splits dest: emit_each_throws)
  qed
  with sendNotificationToUser_keeps [OF assms] show ?thesis
    by (auto split: sum.split)
qed

lemma sendHintOrFeedback_audit:
  assumes "sendHintOrFeedback e w req = (resp, w')"
  shows "(performed resp \<and> \<not> store_throws e AuditLogCreate \<longrightarrow>
            (\<exists>ev. auditLogs w' = auditLogs w @ [ev] \<and> al_action ev = ''SEND_HINT'')) \<and>
         (\<not> (performed resp \<and> \<not> store_throws e AuditLogCreate) \<longrightarrow>
            auditLogs w' = auditLogs w) \<and>
         (performed resp \<or> rejected resp \<or>
          (\<exists>opn. resp = NextError (StoreError opn) \<and> opn \<noteq> AuditLogCreate))"
  using assms
  by (auto simp: sendHintOrFeedback_def user_findUnique_def supportRequest_findFirst_def
        hint_create_def column_of_def
        logAuditEvent_eq catch_next_def Let_def
      split: if_splits option.splits sum.splits prod.splits
      dest!: sendNotificationToUser_outcome)

lemma getUserHints_audit:
  assumes "getUserHints e w req = (resp, w')"
  shows "(performed resp \<and> \<not> store_throws e AuditLogCreate \<longrightarrow>
            (\<exists>ev. auditLogs w' = auditLogs w @ [ev] \<and> al_action ev = ''VIEW_HINT_LIST'')) \<and>
         (\<not> (performed resp \<and> \<not> store_throws e AuditLogCreate) \<longrightarrow>
            auditLogs w' = auditLogs w) \<and>
         (performed resp \<or> rejected resp \<or>
          (\<exists>opn. resp = NextError (StoreError opn) \<and> opn \<noteq> AuditLogCreate))"
  using assms
  by (auto simp: getUserHints_def hint_findMany_def
        logAuditEvent_eq catch_next_def Let_def
      split: if_splits option.splits sum.splits prod.splits)

lemma markHintAsViewed_audit:
  assumes "markHintAsViewed e w req = (resp, w')"
  shows "(performed resp \<and> \<not> store_throws e AuditLogCreate \<longrightarrow>
            (\<exists>ev. auditLogs w' = auditLogs w @ [ev] \<and> al_action ev = ''VIEW_HINT'')) \<and>
         (\<not> (performed resp \<and> \<not> store_throws e AuditLogCreate) \<longrightarrow>
            auditLogs w' = auditLogs w) \<and>
         (performed resp \<or> rejected resp \<or>
          (\<exists>opn. resp = NextError (StoreError opn) \<and> opn \<noteq> AuditLogCreate))"
  using assms
  by (auto simp: markHintAsViewed_def hint_findUnique_def hint_update_def
        logAuditEvent_eq catch_next_def Let_def
      split: if_splits option.splits sum.splits prod.splits)

lemma getUserProgress_audit:
  assumes "getUserProgress e w req = (resp, w')"
  shows "(performed resp \<and> \<not> store_throws e AuditLogCreate \<longrightarrow>
            (\<exists>ev. auditLogs w' = auditLogs w @ [ev] \<and> al_action ev = ''VIEW_USER_PROGRESS'')) \<and>
         (\<not> (performed resp \<and> \<not> store_throws e AuditLogCreate) \<longrightarrow>
            auditLogs w' = auditLogs w) \<and>
         (performed resp \<or> rejected resp \<or>
          (\<exists>opn. resp = NextError (StoreError opn) \<and> opn \<noteq> AuditLogCreate))"
  using assms
  by (auto simp: getUserProgress_def user_findUnique_def supportRequest_findFirst_def
        progressLog_findMany_def
        logAuditEvent_eq catch_next_def Let_def
      split: if_splits option.splits sum.splits prod.splits)

text \<open>
  Claim C3, amended. Every invocation of CreateHint, ListHints, MarkViewed or
  ViewProgress ends in one of three ways: it is rejected (400, 403, 404), a store call
  of the operation throws, or it is performed (it answers 200 or 201, or, for
  CreateHint, an \<^verbatim>\<open>emit\<close> of the notification throws after the hint was created). A
  performed invocation appends exactly one audit event, and its action is the tag of
  the operation, provided the audit table accepts the write; this holds for every
  state of the socket directory and whether or not an \<^verbatim>\<open>emit\<close> throws. In every
  other case (the invocation is rejected, a store call of the operation throws, or the
  write to the audit table itself throws) no audit event is appended; a failing audit
  write is never the way an invocation ends.
\<close>

theorem controller_audit_once:
  assumes "controller opn e w req = (resp, w')"
  shows "(performed resp \<and> \<not> store_throws e AuditLogCreate \<longrightarrow>
            (\<exists>ev. auditLogs w' = auditLogs w @ [ev] \<and> al_action ev = action_tag opn)) \<and>
         (\<not> (performed resp \<and> \<not> store_throws e AuditLogCreate) \<longrightarrow>
            auditLogs w' = auditLogs w) \<and>
         (performed resp \<or> rejected resp \<or>
          (\<exists>sop. resp = NextError (StoreError sop) \<and> sop \<noteq> AuditLogCreate))"
proof (cases opn)
  case CreateHint
  with assms sendHintOrFeedback_audit [of e w req resp w'] show ?thesis by simp
next
  case ListHints
  with assms getUserHints_audit [of e w req resp w'] show ?thesis by simp
next
  case MarkViewed
  with assms markHintAsViewed_audit [of e w req resp w'] show ?thesis by simp
next
  case ViewProgress
  with assms getUserProgress_audit [of e w req resp w'] show ?thesis by simp
qed

text \<open>
  The specialist's hint to \<open>u1\<close>: one \<open>SEND_HINT\<close> event, also when the \<^verbatim>\<open>emit\<close> to
  the socket of \<open>u1\<close> throws. User \<open>u1\<close> marking \<open>h1\<close>: one \<open>VIEW_HINT\<close> event; none
  when the update of the hint throws, and none when \<open>u2\<close> tries and is rejected.
\<close>

theorem controller_audit_once_witness:
  "performed (fst (controller CreateHint ex_env ex_world (send_to ''u1'' ''try the left lever''))) \<and>
   (\<exists>ev. auditLogs (snd (controller CreateHint ex_env ex_world
                            (send_to ''u1'' ''try the left lever''))) =
            auditLogs ex_world @ [ev] \<and> al_action ev = ''SEND_HINT'') \<and>
   fst (controller CreateHint (ex_env\<lparr>emit_throws := (\<lambda>_. True)\<rparr>) ex_world
          (send_to ''u1'' ''try the left lever'')) = NextError (EmitError ''sock1'') \<and>
   (\<exists>ev. auditLogs (snd (controller CreateHint (ex_env\<lparr>emit_throws := (\<lambda>_. True)\<rparr>) ex_world
                            (send_to ''u1'' ''try the left lever''))) =
            auditLogs ex_world @ [ev] \<and> al_action ev = ''SEND_HINT'') \<and>
   (\<exists>ev. auditLogs (snd (controller MarkViewed ex_env ex_world (view_by user1 ''h1''))) =
            auditLogs ex_world @ [ev] \<and> al_action ev = ''VIEW_HINT'') \<and>
   fst (controller MarkViewed (ex_env\<lparr>store_throws := (\<lambda>sop. sop = HintUpdate)\<rparr>) ex_world
          (view_by user1 ''h1'')) = NextError (StoreError HintUpdate) \<and>
   auditLogs (snd (controller MarkViewed (ex_env\<lparr>store_throws := (\<lambda>sop. sop = HintUpdate)\<rparr>)
                     ex_world (view_by user1 ''h1''))) = auditLogs ex_world \<and>
   rejected (fst (controller MarkViewed ex_env ex_world (view_by user2 ''h1''))) \<and>
   auditLogs (snd (controller MarkViewed ex_env ex_world (view_by user2 ''h1''))) =
     auditLogs ex_world"
proof -
  let ?send = "send_to ''u1'' ''try the left lever''"
  let ?e' = "ex_env\<lparr>emit_throws := (\<lambda>_. True)\<rparr>"
  let ?e'' = "ex_env\<lparr>store_throws := (\<lambda>sop. sop = HintUpdate)\<rparr>"
  have ok: "fst (controller CreateHint ex_env ex_world ?send) =
     Json 201 (HintSentBody ''Hint/feedback sent successfully.''
       \<lparr> hs_id = ''h2'', hs_stepId = ''step-3'', hs_puzzleId = None,
         hs_message = ''try the left lever'', hs_sentAt = 8000, hs_status = UNREAD \<rparr>)"
    by (simp add: sendHintOrFeedback_def send_to_def ex_request_def ex_env_def ex_world_def
        specialist_def truthy_def str_def user_id_def user_role_def user_findUnique_def
        supportRequest_findFirst_def hint_create_def column_of_def logAuditEvent_eq
        sendNotificationToUser_def Let_def)
  have thrown: "fst (controller CreateHint ?e' ex_world ?send) = NextError (EmitError ''sock1'')"
    by (simp add: sendHintOrFeedback_def send_to_def ex_request_def ex_env_def ex_world_def
        specialist_def truthy_def str_def user_id_def user_role_def user_findUnique_def
        supportRequest_findFirst_def hint_create_def column_of_def logAuditEvent_eq
        sendNotificationToUser_def catch_next_def Let_def)
  have viewed: "performed (fst (controller MarkViewed ex_env ex_world (view_by user1 ''h1'')))"
    by (simp add: markHintAsViewed_def view_by_def ex_request_def ex_env_def ex_world_def
        ex_hint_def user1_def user_id_def user_role_def hint_findUnique_def hint_update_def
        logAuditEvent_eq Let_def)
  have failed: "fst (controller MarkViewed ?e'' ex_world (view_by user1 ''h1'')) =
      NextError (StoreError HintUpdate)"
    by (simp add: markHintAsViewed_def view_by_def ex_request_def ex_env_def ex_world_def
        ex_hint_def user1_def user_id_def user_role_def hint_findUnique_def hint_update_def
        catch_next_def Let_def)
  have refused: "fst (controller MarkViewed ex_env ex_world (view_by user2 ''h1'')) =
      Json 403 (ErrorBody ''Access denied.'')"
    by (simp add: markHintAsViewed_def view_by_def ex_request_def ex_env_def ex_world_def
        ex_hint_def user2_def user_id_def user_role_def hint_findUnique_def Let_def)
  have quiet: "\<not> store_throws ex_env AuditLogCreate" "\<not> store_throws ?e' AuditLogCreate"
    by (simp_all add: ex_env_def)
  from controller_audit_once [of CreateHint ex_env ex_world ?send, OF prod.collapse [symmetric]]
    controller_audit_once [of CreateHint ?e' ex_world ?send, OF prod.collapse [symmetric]]
    controller_audit_once [of MarkViewed ex_env ex_world "view_by user1 ''h1''",
      OF prod.collapse [symmetric]]
    controller_audit_once [of MarkViewed ?e'' ex_world "view_by user1 ''h1''",
      OF prod.collapse [symmetric]]
    controller_audit_once [of MarkViewed ex_env ex_world "view_by user2 ''h1''",
      OF prod.collapse [symmetric]]
    ok thrown viewed failed refused quiet
  show ?thesis by simp
qed

end
